theory Spec2Isabelle
  imports Main "HOL-Library.AList" "HOL-Library.Sublist"
begin

section \<open>Values of the deployment metadata and of provider responses\<close>

text \<open>
  The resource metadata (\<open>meta\<close>), the trigger specifications and the responses of the
  provider client are Python dictionaries of JSON-like values. A dictionary is an
  association list with string keys, read with \<open>map_of\<close>.
\<close>

datatype pyval =
    PNone
  | PBool bool
  | PInt int
  | PStr string
  | PList "pyval list"
  | PDict "(string \<times> pyval) list"

type_synonym dict = "(string \<times> pyval) list"

text \<open>Python truthiness, as tested by \<open>if response:\<close>, \<open>if dl_type and dl_name\<close>, \<open>if not role_arn\<close>.\<close>

fun truthy :: "pyval \<Rightarrow> bool" where
  "truthy PNone = False"
| "truthy (PBool b) = b"
| "truthy (PInt i) = (i \<noteq> 0)"
| "truthy (PStr s) = (s \<noteq> [])"
| "truthy (PList xs) = (xs \<noteq> [])"
| "truthy (PDict d) = (d \<noteq> [])"

text \<open>
  The exceptions of the program. \<open>ClientError code message\<close> is the provider client's
  error; the removers read its \<open>response['Error']['Code']\<close>.
\<close>

datatype error =
    ValidationError
  | KeyError pyval
  | TypeError
  | AttributeError
  | AssertionError "pyval list"
  | ClientError string string
  | OtherError string

definition bind_e :: "error + 'a \<Rightarrow> ('a \<Rightarrow> error + 'b) \<Rightarrow> error + 'b" where
  "bind_e r f = (case r of Inl e \<Rightarrow> Inl e | Inr x \<Rightarrow> f x)"

text \<open>\<open>d.get(k)\<close> and \<open>d[k]\<close> on a dictionary; \<open>v[k]\<close> on any value.\<close>

definition dict_get :: "dict \<Rightarrow> string \<Rightarrow> pyval" where
  "dict_get d k = (case map_of d k of None \<Rightarrow> PNone | Some v \<Rightarrow> v)"

definition dict_index :: "dict \<Rightarrow> string \<Rightarrow> error + pyval" where
  "dict_index d k = (case map_of d k of None \<Rightarrow> Inl (KeyError (PStr k)) | Some v \<Rightarrow> Inr v)"

fun py_getitem :: "pyval \<Rightarrow> string \<Rightarrow> error + pyval" where
  "py_getitem (PDict d) k = dict_index d k"
| "py_getitem v k = Inl TypeError"

text \<open>Iteration (\<open>for x in v\<close>): a list yields its elements, a dictionary its keys, a string
  its characters; the other values are not iterable.\<close>

fun py_iter :: "pyval \<Rightarrow> error + pyval list" where
  "py_iter (PList xs) = Inr xs"
| "py_iter (PDict d) = Inr (map (\<lambda>kv. PStr (fst kv)) d)"
| "py_iter (PStr s) = Inr (map (\<lambda>c. PStr [c]) s)"
| "py_iter v = Inl TypeError"

text \<open>\<open>str.lower()\<close>, on ASCII letters; a value that is not a string has no \<open>lower\<close>.\<close>

definition ascii_lower :: "char \<Rightarrow> char" where
  "ascii_lower c =
     (case map_of (zip ''ABCDEFGHIJKLMNOPQRSTUVWXYZ'' ''abcdefghijklmnopqrstuvwxyz'') c of
        None \<Rightarrow> c | Some l \<Rightarrow> l)"

fun py_lower :: "pyval \<Rightarrow> error + pyval" where
  "py_lower (PStr s) = Inr (PStr (map ascii_lower s))"
| "py_lower v = Inl AttributeError"

text \<open>\<open>s.split(c)\<close> with an explicit separator: never empty, so \<open>[-1]\<close> is its last element.\<close>

fun split_on :: "char \<Rightarrow> string \<Rightarrow> string list" where
  "split_on c [] = [[]]"
| "split_on c (x # xs) =
     (if x = c then [] # split_on c xs
      else (case split_on c xs of [] \<Rightarrow> [[x]] | y # ys \<Rightarrow> (x # y) # ys))"

fun last_segment :: "pyval \<Rightarrow> error + pyval" where
  "last_segment (PStr s) = Inr (PStr (last (split_on CHR ''/'' s)))"
| "last_segment v = Inl AttributeError"

text \<open>Decimal digits, for \<open>str.format\<close> on an integer.\<close>

fun str_of_nat :: "nat \<Rightarrow> string" where
  "str_of_nat n =
     (if n < 10 then [char_of (48 + n)]
      else str_of_nat (n div 10) @ [char_of (48 + n mod 10)])"

definition str_of_int :: "int \<Rightarrow> string" where
  "str_of_int i = (if i < 0 then CHR ''-'' # str_of_nat (nat (- i)) else str_of_nat (nat i))"

text \<open>A number for \<open><=\<close>: Python's \<open>bool\<close> is an \<open>int\<close>.\<close>

fun num_of :: "pyval \<Rightarrow> int option" where
  "num_of (PInt i) = Some i"
| "num_of (PBool b) = Some (if b then 1 else 0)"
| "num_of v = None"

text \<open>A dictionary key must be hashable: a list or a dictionary is not.\<close>

fun hashable :: "pyval \<Rightarrow> bool" where
  "hashable (PList xs) = False"
| "hashable (PDict d) = False"
| "hashable v = True"

section \<open>The provider client, the trace and the environment\<close>

text \<open>
  Every operation of the connection facade (\<open>CONN\<close>, \<open>_LAMBDA_CONN\<close>, \<open>_S3_CONN\<close>,
  \<open>_CW_LOGS_CONN\<close>, \<open>_KINESIS_CONN\<close>) that the two modules call, with its arguments.
  \<open>CreateLambda\<close> carries its thirteen keyword arguments as a dictionary;
  \<open>AddEventSource\<close> has an optional start position.
\<close>

datatype call =
    IsFileExists pyval pyval
  | GetFunction pyval
  | CheckIfRoleExists pyval
  | CreateLambda dict
  | GetUnresolvedConcurrentExecutions
  | PutFunctionConcurrency pyval pyval
  | IsStreamEnabled pyval
  | EnableTableStream pyval
  | GetTableStreamArn pyval
  | AddEventSource pyval pyval pyval "pyval option"
  | GetQueueUrl pyval pyval
  | GetRuleArn pyval
  | AddRuleTarget pyval pyval
  | AddInvocationPermission pyval pyval pyval
  | IsBucketExists pyval
  | ConfigureEventSourceForLambda pyval pyval pyval
  | CreateSnsSubscriptionForLambda pyval pyval pyval
  | GetStream pyval
  | AttachInlinePolicy pyval pyval pyval
  | DeleteLambda pyval
  | RemoveTrigger pyval
  | GetLogGroupNames
  | DeleteLogGroupName pyval
  | RemoveStream pyval
  | CreateStream pyval pyval

datatype level = DEBUG | INFO | WARN | ERROR

text \<open>
  What a run does, in order: the provider calls it issues, its \<open>time.sleep\<close> waits (in
  seconds) and its log records (level, message, arguments).
\<close>

datatype event = Call call | Sleep nat | Log level string "pyval list"

type_synonym world = "event list"

type_synonym 'a m = "world \<Rightarrow> (error + 'a) \<times> world"

text \<open>
  The environment of a run. \<open>region\<close>, \<open>account_id\<close> and \<open>deploy_target_bucket\<close> are the
  attributes of \<open>CONFIG\<close>; \<open>S3_PATH_NAME\<close> is the constant imported from
  \<open>syndicate.core.build.meta_processor\<close>. The provider is a black box: its reply to a call
  (a value, or a raised exception) is a function of everything the run has done so far.
  \<open>retry\<close> is the decorator of \<open>syndicate.connection.helper\<close>, whose code is not among the
  sources: it takes the decorated call and gives the call that runs instead.
  \<open>py_repr\<close> and \<open>py_le_other\<close> stand for the two Python built-ins that are used on
  arbitrary values: \<open>str\<close> of a list or dictionary, and \<open><=\<close> between values that are
  not both numbers.
\<close>

record env =
  region :: string
  account_id :: string
  deploy_target_bucket :: string
  S3_PATH_NAME :: string
  provider :: "event list \<Rightarrow> call \<Rightarrow> error + pyval"
  retry :: "unit m \<Rightarrow> unit m"
  py_repr :: "pyval \<Rightarrow> string"
  py_le_other :: "pyval \<Rightarrow> pyval \<Rightarrow> error + bool"

definition return_m :: "'a \<Rightarrow> 'a m" where
  "return_m x w = (Inr x, w)"

definition raise_m :: "error \<Rightarrow> 'a m" where
  "raise_m e w = (Inl e, w)"

definition lift_m :: "error + 'a \<Rightarrow> 'a m" where
  "lift_m r w = (r, w)"

definition bind_m :: "'a m \<Rightarrow> ('a \<Rightarrow> 'b m) \<Rightarrow> 'b m" where
  "bind_m c f w = (case c w of (Inl e, w') \<Rightarrow> (Inl e, w') | (Inr x, w') \<Rightarrow> f x w')"

definition provider_call :: "env \<Rightarrow> call \<Rightarrow> pyval m" where
  "provider_call env c w = (provider env w c, w @ [Call c])"

definition sleep :: "nat \<Rightarrow> unit m" where
  "sleep n w = (Inr (), w @ [Sleep n])"

definition log_msg :: "level \<Rightarrow> string \<Rightarrow> pyval list \<Rightarrow> unit m" where
  "log_msg l msg args w = (Inr (), w @ [Log l msg args])"

text \<open>\<open>'{0}'.format(v)\<close> and \<open>a <= b\<close>.\<close>

definition py_str :: "env \<Rightarrow> pyval \<Rightarrow> string" where
  "py_str env v =
     (case v of
        PStr s \<Rightarrow> s
      | PInt i \<Rightarrow> str_of_int i
      | PBool b \<Rightarrow> (if b then ''True'' else ''False'')
      | PNone \<Rightarrow> ''None''
      | _ \<Rightarrow> py_repr env v)"

definition py_le :: "env \<Rightarrow> pyval \<Rightarrow> pyval \<Rightarrow> error + bool" where
  "py_le env a b =
     (case (num_of a, num_of b) of
        (Some x, Some y) \<Rightarrow> Inr (x \<le> y)
      | _ \<Rightarrow> py_le_other env a b)"

text \<open>
  \<open>try: body except ClientError as e:\<close> with the handler of both removers: the code
  \<open>ResourceNotFoundException\<close> runs the warning, any other \<open>ClientError\<close> is raised
  again, and an exception of another class is not caught.
\<close>

definition try_except_not_found :: "unit m \<Rightarrow> unit m \<Rightarrow> unit m" where
  "try_except_not_found body warn w =
     (case body w of
        (Inl (ClientError code msg), w') \<Rightarrow>
          (if code = ''ResourceNotFoundException'' then warn w'
           else (Inl (ClientError code msg), w'))
      | r \<Rightarrow> r)"

section \<open>The helpers of \<open>syndicate.core.resources.helper\<close>\<close>

text \<open>
  Modelled from the spec: \<open>validate_params\<close> is imported from
  \<open>syndicate.core.resources.helper\<close>, which is not among the sources. The spec: the
  reconciler "fails with ValidationError if required meta fields are missing".
\<close>

definition validate_params :: "string \<Rightarrow> dict \<Rightarrow> string list \<Rightarrow> error + unit" where
  "validate_params name meta required_params =
     (if list_all (\<lambda>p. map_of meta p \<noteq> None) required_params then Inr ()
      else Inl ValidationError)"

text \<open>
  Modelled from the spec: \<open>build_description_obj\<close> is imported from the same module. The
  spec: a DescriptionObject is the snapshot
  \<open>{ resource_name, resource_meta, provider_response_subset }\<close>.
\<close>

record description_obj =
  resource_name :: string
  resource_meta :: dict
  provider_response :: pyval

definition build_description_obj :: "pyval \<Rightarrow> string \<Rightarrow> dict \<Rightarrow> description_obj" where
  "build_description_obj response name meta =
     \<lparr>resource_name = name, resource_meta = meta, provider_response = response\<rparr>"

text \<open>The result of a reconciliation: the one-entry dictionary \<open>{arn: description}\<close>.\<close>

type_synonym deployment = "(pyval \<times> description_obj) list"

definition single_entry :: "pyval \<Rightarrow> description_obj \<Rightarrow> error + deployment" where
  "single_entry k d = (if hashable k then Inr [(k, d)] else Inl TypeError)"

section \<open>\<open>kinesis_resource.py\<close>\<close>

text \<open>
  The functions take the keyword arguments that \<open>unpack_kwargs\<close> hands them. A resource
  name is a string.
\<close>

definition remove_kinesis_stream :: "env \<Rightarrow> pyval \<Rightarrow> dict \<Rightarrow> unit m" where
  "remove_kinesis_stream env arn config =
     bind_m (lift_m (dict_index config ''resource_name'')) (\<lambda>stream_name.
     try_except_not_found
       (bind_m (provider_call env (RemoveStream stream_name)) (\<lambda>_.
        log_msg INFO ''Kinesis stream %s was removed.'' [stream_name]))
       (log_msg WARN ''Kinesis stream %s is not found'' [stream_name]))"

text \<open>The dictionary display \<open>{response['StreamARN']: build_description_obj(response, name, meta)}\<close>.\<close>

definition stream_description :: "string \<Rightarrow> dict \<Rightarrow> pyval \<Rightarrow> error + deployment" where
  "stream_description name meta response =
     bind_e (py_getitem response ''StreamARN'') (\<lambda>arn.
     single_entry arn (build_description_obj response name meta))"

text \<open>Lines 62 to 68 of \<open>_create_kinesis_stream_from_meta\<close>, reached when no stream is
  found and after the wait for a stream that is being deleted.\<close>

definition create_stream_and_describe :: "env \<Rightarrow> string \<Rightarrow> dict \<Rightarrow> deployment m" where
  "create_stream_and_describe env name meta =
     bind_m (lift_m (dict_index meta ''shard_count'')) (\<lambda>shard_count.
     bind_m (provider_call env (CreateStream (PStr name) shard_count)) (\<lambda>_.
     bind_m (log_msg INFO ''Created kinesis stream %s.'' [PStr name]) (\<lambda>_.
     bind_m (provider_call env (GetStream (PStr name))) (\<lambda>response.
     lift_m (stream_description name meta response)))))"

definition create_kinesis_stream_from_meta :: "env \<Rightarrow> string \<Rightarrow> dict \<Rightarrow> deployment m" where
  "create_kinesis_stream_from_meta env name meta =
     bind_m (provider_call env (GetStream (PStr name))) (\<lambda>response.
     if truthy response then
       bind_m (lift_m (bind_e (py_getitem response ''StreamDescription'')
                              (\<lambda>d. py_getitem d ''StreamStatus''))) (\<lambda>stream_status.
       if stream_status = PStr ''DELETING'' then
         bind_m (log_msg DEBUG ''Waiting for deletion kinesis stream %s...'' [PStr name]) (\<lambda>_.
         bind_m (sleep 120) (\<lambda>_.
         create_stream_and_describe env name meta))
       else
         bind_m (log_msg WARN ''%s kinesis stream exists'' [PStr name]) (\<lambda>_.
         lift_m (stream_description name meta response)))
     else create_stream_and_describe env name meta)"

section \<open>\<open>lambda_resource.py\<close>\<close>

text \<open>
  \<open>describe_lambda\<close> reads the function's identifier, deletes it from the response and
  keys the description by it.
\<close>

fun del_function_arn :: "pyval \<Rightarrow> pyval" where
  "del_function_arn (PDict d) =
     (case map_of d ''Configuration'' of
        Some (PDict c) \<Rightarrow>
          PDict (AList.update ''Configuration'' (PDict (AList.delete ''FunctionArn'' c)) d)
      | _ \<Rightarrow> PDict d)"
| "del_function_arn v = v"

definition function_arn :: "pyval \<Rightarrow> error + pyval" where
  "function_arn response =
     bind_e (py_getitem response ''Configuration'') (\<lambda>c. py_getitem c ''FunctionArn'')"

definition describe_lambda :: "string \<Rightarrow> dict \<Rightarrow> pyval \<Rightarrow> error + deployment" where
  "describe_lambda name meta response =
     bind_e (function_arn response) (\<lambda>arn.
     single_entry arn (build_description_obj (del_function_arn response) name meta))"

definition req_params :: "string list" where
  "req_params = [''iam_role_name'', ''runtime'', ''memory'', ''timeout'', ''func_name'']"

text \<open>Lines 74 to 82: the dead-letter target.\<close>

definition compute_dl_target_arn :: "env \<Rightarrow> dict \<Rightarrow> error + pyval" where
  "compute_dl_target_arn env meta =
     bind_e (let dl_type = dict_get meta ''dl_resource_type''
             in if truthy dl_type then py_lower dl_type else Inr dl_type) (\<lambda>dl_type.
     let dl_name = dict_get meta ''dl_resource_name''
     in Inr (if truthy dl_type \<and> truthy dl_name
             then PStr (''arn:aws:'' @ py_str env dl_type @ '':'' @ region env @ '':''
                        @ account_id env @ '':'' @ py_str env dl_name)
             else PNone))"

text \<open>Lines 84 to 98: the keyword arguments of the create call, evaluated in order.\<close>

definition create_lambda_kwargs ::
  "env \<Rightarrow> string \<Rightarrow> dict \<Rightarrow> pyval \<Rightarrow> pyval \<Rightarrow> pyval \<Rightarrow> error + dict" where
  "create_lambda_kwargs env name meta role_arn key dl_target_arn =
     bind_e (dict_index meta ''func_name'') (\<lambda>func_name.
     bind_e (bind_e (dict_index meta ''runtime'') py_lower) (\<lambda>runtime.
     bind_e (dict_index meta ''memory'') (\<lambda>memory.
     bind_e (dict_index meta ''timeout'') (\<lambda>timeout.
     Inr [(''lambda_name'', PStr name),
          (''func_name'', func_name),
          (''role'', role_arn),
          (''runtime'', runtime),
          (''memory'', memory),
          (''timeout'', timeout),
          (''s3_bucket'', PStr (deploy_target_bucket env)),
          (''s3_key'', key),
          (''env_vars'', dict_get meta ''env_variables''),
          (''vpc_sub_nets'', dict_get meta ''subnet_ids''),
          (''vpc_security_group'', dict_get meta ''security_group_ids''),
          (''dl_target_arn'', dl_target_arn),
          (''tracing_mode'', dict_get meta ''tracing_mode'')]))))"

text \<open>Lines 103 to 115: the concurrency override.\<close>

definition set_concurrency :: "env \<Rightarrow> string \<Rightarrow> dict \<Rightarrow> unit m" where
  "set_concurrency env name meta =
     (let con_exec = dict_get meta ''concurrent_executions''
      in if truthy con_exec then
           bind_m (log_msg DEBUG ''Going to set up concurrency executions'' []) (\<lambda>_.
           bind_m (provider_call env GetUnresolvedConcurrentExecutions) (\<lambda>unresolved_exec.
           bind_m (lift_m (py_le env con_exec unresolved_exec)) (\<lambda>fits.
           if fits then
             bind_m (provider_call env (PutFunctionConcurrency (PStr name) con_exec)) (\<lambda>_.
             log_msg DEBUG ''Concurrency is enabled for %s lambda'' [PStr name])
           else
             log_msg WARN
               ''Account does not have any unresolved executions. Current size - %s''
               [unresolved_exec])))
         else return_m ())"

subsection \<open>The trigger functions\<close>

text \<open>
  Each trigger function is decorated with \<open>retry\<close>: the definition with suffix \<open>_body\<close> is
  the function as written, the one without is what its name is bound to.
\<close>

definition create_dynamodb_trigger_from_meta_body ::
  "env \<Rightarrow> string \<Rightarrow> pyval \<Rightarrow> pyval \<Rightarrow> dict \<Rightarrow> unit m" where
  "create_dynamodb_trigger_from_meta_body env lambda_name lambda_arn role_name trigger_meta =
     bind_m (lift_m (validate_params lambda_name trigger_meta
                       [''target_table'', ''batch_size''])) (\<lambda>_.
     bind_m (lift_m (dict_index trigger_meta ''target_table'')) (\<lambda>table_name.
     bind_m (provider_call env (IsStreamEnabled table_name)) (\<lambda>enabled.
     bind_m (if \<not> truthy enabled
             then bind_m (provider_call env (EnableTableStream table_name)) (\<lambda>_. return_m ())
             else return_m ()) (\<lambda>_.
     bind_m (provider_call env (GetTableStreamArn table_name)) (\<lambda>stream.
     bind_m (lift_m (dict_index trigger_meta ''batch_size'')) (\<lambda>batch_size.
     bind_m (provider_call env
               (AddEventSource (PStr lambda_name) stream batch_size (Some (PStr ''LATEST'')))) (\<lambda>_.
     log_msg INFO ''Lambda %s subscribed to dynamodb table %s''
       [PStr lambda_name, table_name])))))))"

definition create_dynamodb_trigger_from_meta ::
  "env \<Rightarrow> string \<Rightarrow> pyval \<Rightarrow> pyval \<Rightarrow> dict \<Rightarrow> unit m" where
  "create_dynamodb_trigger_from_meta env lambda_name lambda_arn role_name trigger_meta =
     retry env (create_dynamodb_trigger_from_meta_body env lambda_name lambda_arn role_name
                  trigger_meta)"

definition create_sqs_trigger_from_meta_body ::
  "env \<Rightarrow> string \<Rightarrow> pyval \<Rightarrow> pyval \<Rightarrow> dict \<Rightarrow> unit m" where
  "create_sqs_trigger_from_meta_body env lambda_name lambda_arn role_name trigger_meta =
     bind_m (lift_m (validate_params lambda_name trigger_meta
                       [''target_queue'', ''batch_size''])) (\<lambda>_.
     bind_m (lift_m (dict_index trigger_meta ''target_queue'')) (\<lambda>target_queue.
     bind_m (provider_call env (GetQueueUrl target_queue (PStr (account_id env)))) (\<lambda>url.
     if \<not> truthy url then log_msg DEBUG ''Queue %s does not exist'' [target_queue]
     else
       bind_m (lift_m (dict_index trigger_meta ''batch_size'')) (\<lambda>batch_size.
       bind_m (provider_call env
                 (AddEventSource (PStr lambda_name)
                    (PStr (''arn:aws:sqs:'' @ region env @ '':'' @ account_id env @ '':''
                           @ py_str env target_queue))
                    batch_size None)) (\<lambda>_.
       log_msg INFO ''Lambda %s subscribed to SQS queue %s''
         [PStr lambda_name, target_queue])))))"

definition create_sqs_trigger_from_meta ::
  "env \<Rightarrow> string \<Rightarrow> pyval \<Rightarrow> pyval \<Rightarrow> dict \<Rightarrow> unit m" where
  "create_sqs_trigger_from_meta env lambda_name lambda_arn role_name trigger_meta =
     retry env (create_sqs_trigger_from_meta_body env lambda_name lambda_arn role_name
                  trigger_meta)"

definition create_cloud_watch_trigger_from_meta_body ::
  "env \<Rightarrow> string \<Rightarrow> pyval \<Rightarrow> pyval \<Rightarrow> dict \<Rightarrow> unit m" where
  "create_cloud_watch_trigger_from_meta_body env lambda_name lambda_arn role_name trigger_meta =
     bind_m (lift_m (validate_params lambda_name trigger_meta [''target_rule''])) (\<lambda>_.
     bind_m (lift_m (dict_index trigger_meta ''target_rule'')) (\<lambda>rule_name.
     bind_m (provider_call env (GetRuleArn rule_name)) (\<lambda>rule_arn.
     bind_m (provider_call env (AddRuleTarget rule_name lambda_arn)) (\<lambda>_.
     bind_m (provider_call env
               (AddInvocationPermission (PStr lambda_name) (PStr ''events.amazonaws.com'')
                  rule_arn)) (\<lambda>_.
     log_msg INFO ''Lambda %s subscribed to cloudwatch rule %s''
       [PStr lambda_name, rule_name])))))"

definition create_cloud_watch_trigger_from_meta ::
  "env \<Rightarrow> string \<Rightarrow> pyval \<Rightarrow> pyval \<Rightarrow> dict \<Rightarrow> unit m" where
  "create_cloud_watch_trigger_from_meta env lambda_name lambda_arn role_name trigger_meta =
     retry env (create_cloud_watch_trigger_from_meta_body env lambda_name lambda_arn role_name
                  trigger_meta)"

definition create_s3_trigger_from_meta_body ::
  "env \<Rightarrow> string \<Rightarrow> pyval \<Rightarrow> pyval \<Rightarrow> dict \<Rightarrow> unit m" where
  "create_s3_trigger_from_meta_body env lambda_name lambda_arn role_name trigger_meta =
     bind_m (lift_m (validate_params lambda_name trigger_meta
                       [''target_bucket'', ''s3_events''])) (\<lambda>_.
     bind_m (lift_m (dict_index trigger_meta ''target_bucket'')) (\<lambda>target_bucket.
     bind_m (provider_call env (IsBucketExists target_bucket)) (\<lambda>bucket_exists.
     if \<not> truthy bucket_exists then
       log_msg ERROR
         (''S3 bucket '' @ py_str env target_bucket @ '' event source for lambda ''
          @ lambda_name @ '' was not created.'') []
     else
       bind_m (provider_call env
                 (AddInvocationPermission (PStr lambda_name) (PStr ''s3.amazonaws.com'')
                    (PStr (''arn:aws:s3:::'' @ py_str env target_bucket)))) (\<lambda>_.
       bind_m (lift_m (dict_index trigger_meta ''s3_events'')) (\<lambda>s3_events.
       bind_m (provider_call env
                 (ConfigureEventSourceForLambda target_bucket (PStr lambda_name) s3_events)) (\<lambda>_.
       log_msg INFO ''Lambda %s subscribed to S3 bucket %s''
         [PStr lambda_name, target_bucket]))))))"

definition create_s3_trigger_from_meta ::
  "env \<Rightarrow> string \<Rightarrow> pyval \<Rightarrow> pyval \<Rightarrow> dict \<Rightarrow> unit m" where
  "create_s3_trigger_from_meta env lambda_name lambda_arn role_name trigger_meta =
     retry env (create_s3_trigger_from_meta_body env lambda_name lambda_arn role_name
                  trigger_meta)"

text \<open>\<open>create_sns_subscription_for_lambda\<close> belongs to \<open>sns_resource\<close>, a collaborator that
  is not among the sources: calling it is an event of the trace like a provider call.\<close>

definition create_sns_topic_trigger_from_meta_body ::
  "env \<Rightarrow> string \<Rightarrow> pyval \<Rightarrow> pyval \<Rightarrow> dict \<Rightarrow> unit m" where
  "create_sns_topic_trigger_from_meta_body env lambda_name lambda_arn role_name trigger_meta =
     bind_m (lift_m (validate_params lambda_name trigger_meta [''target_topic''])) (\<lambda>_.
     bind_m (lift_m (dict_index trigger_meta ''target_topic'')) (\<lambda>topic_name.
     bind_m (provider_call env
               (CreateSnsSubscriptionForLambda lambda_arn topic_name
                  (dict_get trigger_meta ''region''))) (\<lambda>_.
     bind_m (lift_m (dict_index trigger_meta ''target_topic'')) (\<lambda>topic.
     log_msg INFO ''Lambda %s subscribed to sns topic %s'' [PStr lambda_name, topic]))))"

definition create_sns_topic_trigger_from_meta ::
  "env \<Rightarrow> string \<Rightarrow> pyval \<Rightarrow> pyval \<Rightarrow> dict \<Rightarrow> unit m" where
  "create_sns_topic_trigger_from_meta env lambda_name lambda_arn role_name trigger_meta =
     retry env (create_sns_topic_trigger_from_meta_body env lambda_name lambda_arn role_name
                  trigger_meta)"

definition add_kinesis_event_source_body :: "env \<Rightarrow> string \<Rightarrow> pyval \<Rightarrow> dict \<Rightarrow> unit m" where
  "add_kinesis_event_source_body env lambda_name stream_arn trigger_meta =
     bind_m (lift_m (dict_index trigger_meta ''batch_size'')) (\<lambda>batch_size.
     bind_m (lift_m (dict_index trigger_meta ''starting_position'')) (\<lambda>starting_position.
     bind_m (provider_call env
               (AddEventSource (PStr lambda_name) stream_arn batch_size
                  (Some starting_position))) (\<lambda>_.
     return_m ())))"

definition add_kinesis_event_source :: "env \<Rightarrow> string \<Rightarrow> pyval \<Rightarrow> dict \<Rightarrow> unit m" where
  "add_kinesis_event_source env lambda_name stream_arn trigger_meta =
     retry env (add_kinesis_event_source_body env lambda_name stream_arn trigger_meta)"

definition kinesis_policy_document :: "pyval \<Rightarrow> pyval \<Rightarrow> pyval" where
  "kinesis_policy_document lambda_arn stream_arn =
     PDict [(''Statement'',
             PList [PDict [(''Effect'', PStr ''Allow''),
                           (''Action'', PList [PStr ''lambda:InvokeFunction'']),
                           (''Resource'', PList [lambda_arn])],
                    PDict [(''Action'', PList [PStr ''kinesis:DescribeStreams'',
                                               PStr ''kinesis:DescribeStream'',
                                               PStr ''kinesis:ListStreams'',
                                               PStr ''kinesis:GetShardIterator'',
                                               PStr ''Kinesis:GetRecords'']),
                           (''Effect'', PStr ''Allow''),
                           (''Resource'', stream_arn)]]),
            (''Version'', PStr ''2012-10-17'')]"

definition create_kinesis_stream_trigger_from_meta_body ::
  "env \<Rightarrow> string \<Rightarrow> pyval \<Rightarrow> pyval \<Rightarrow> dict \<Rightarrow> unit m" where
  "create_kinesis_stream_trigger_from_meta_body env lambda_name lambda_arn role_name trigger_meta =
     bind_m (lift_m (validate_params lambda_name trigger_meta
                       [''target_stream'', ''batch_size'', ''starting_position''])) (\<lambda>_.
     bind_m (lift_m (dict_index trigger_meta ''target_stream'')) (\<lambda>stream_name.
     bind_m (provider_call env (GetStream stream_name)) (\<lambda>stream.
     bind_m (lift_m (bind_e (py_getitem stream ''StreamDescription'')
                            (\<lambda>d. py_getitem d ''StreamARN''))) (\<lambda>stream_arn.
     bind_m (lift_m (bind_e (py_getitem stream ''StreamDescription'')
                            (\<lambda>d. py_getitem d ''StreamStatus''))) (\<lambda>stream_status.
     bind_m (if stream_status \<noteq> PStr ''ACTIVE'' then
               bind_m (log_msg DEBUG
                         ''Kinesis stream %s is not in active state, waiting for activation...''
                         [stream_name]) (\<lambda>_.
               sleep 120)
             else return_m ()) (\<lambda>_.
     let policy_name = py_str env stream_name @ ''KinesisTo'' @ lambda_name @ ''Lambda''
     in
     bind_m (provider_call env
               (AttachInlinePolicy role_name (PStr policy_name)
                  (kinesis_policy_document lambda_arn stream_arn))) (\<lambda>_.
     bind_m (log_msg DEBUG ''Inline policy %s is attached to role %s''
               [PStr policy_name, role_name]) (\<lambda>_.
     bind_m (log_msg DEBUG ''Waiting for activation policy %s...'' [PStr policy_name]) (\<lambda>_.
     bind_m (sleep 10) (\<lambda>_.
     bind_m (add_kinesis_event_source env lambda_name stream_arn trigger_meta) (\<lambda>_.
     log_msg INFO ''Lambda %s subscribed to kinesis stream %s''
       [PStr lambda_name, stream_name])))))))))))"

definition create_kinesis_stream_trigger_from_meta ::
  "env \<Rightarrow> string \<Rightarrow> pyval \<Rightarrow> pyval \<Rightarrow> dict \<Rightarrow> unit m" where
  "create_kinesis_stream_trigger_from_meta env lambda_name lambda_arn role_name trigger_meta =
     retry env (create_kinesis_stream_trigger_from_meta_body env lambda_name lambda_arn
                  role_name trigger_meta)"

text \<open>The dispatch table, in the order of the source.\<close>

definition CREATE_TRIGGER ::
  "env \<Rightarrow> (string \<times> (string \<Rightarrow> pyval \<Rightarrow> pyval \<Rightarrow> dict \<Rightarrow> unit m)) list" where
  "CREATE_TRIGGER env =
     [(''dynamodb_trigger'', create_dynamodb_trigger_from_meta env),
      (''cloudwatch_rule_trigger'', create_cloud_watch_trigger_from_meta env),
      (''s3_trigger'', create_s3_trigger_from_meta env),
      (''sns_topic_trigger'', create_sns_topic_trigger_from_meta env),
      (''kinesis_trigger'', create_kinesis_stream_trigger_from_meta env),
      (''sqs_trigger'', create_sqs_trigger_from_meta env)]"

text \<open>\<open>CREATE_TRIGGER[trigger_type]\<close>: a key that is not in the table is a \<open>KeyError\<close>, a
  key that cannot be hashed a \<open>TypeError\<close>.\<close>

definition trigger_lookup ::
  "(string \<times> 'f) list \<Rightarrow> pyval \<Rightarrow> error + 'f" where
  "trigger_lookup table trigger_type =
     (if \<not> hashable trigger_type then Inl TypeError
      else case trigger_type of
             PStr s \<Rightarrow> (case map_of table s of
                          None \<Rightarrow> Inl (KeyError trigger_type) | Some func \<Rightarrow> Inr func)
           | _ \<Rightarrow> Inl (KeyError trigger_type))"

text \<open>Lines 119 to 121, the body of the loop over \<open>event_sources\<close>.\<close>

definition create_trigger :: "env \<Rightarrow> string \<Rightarrow> pyval \<Rightarrow> pyval \<Rightarrow> pyval \<Rightarrow> unit m" where
  "create_trigger env name lambda_arn role_name trigger_meta =
     bind_m (lift_m (py_getitem trigger_meta ''resource_type'')) (\<lambda>trigger_type.
     bind_m (lift_m (trigger_lookup (CREATE_TRIGGER env) trigger_type)) (\<lambda>func.
     case trigger_meta of
       PDict tm \<Rightarrow> func name lambda_arn role_name tm
     | _ \<Rightarrow> raise_m TypeError))"

fun create_triggers :: "env \<Rightarrow> string \<Rightarrow> pyval \<Rightarrow> pyval \<Rightarrow> pyval list \<Rightarrow> unit m" where
  "create_triggers env name lambda_arn role_name [] = return_m ()"
| "create_triggers env name lambda_arn role_name (trigger_meta # rest) =
     bind_m (create_trigger env name lambda_arn role_name trigger_meta) (\<lambda>_.
     create_triggers env name lambda_arn role_name rest)"

text \<open>Lines 117 and 118.\<close>

definition wire_event_sources :: "env \<Rightarrow> string \<Rightarrow> pyval \<Rightarrow> pyval \<Rightarrow> dict \<Rightarrow> unit m" where
  "wire_event_sources env name lambda_arn role_name meta =
     (let event_sources = dict_get meta ''event_sources''
      in if truthy event_sources then
           bind_m (lift_m (py_iter event_sources)) (\<lambda>specs.
           create_triggers env name lambda_arn role_name specs)
         else return_m ())"

subsection \<open>The function reconciler\<close>

text \<open>Lines 99 to 123 of \<open>_create_lambda_from_meta\<close>: after the create call.\<close>

definition finish_new_lambda :: "env \<Rightarrow> string \<Rightarrow> dict \<Rightarrow> pyval \<Rightarrow> deployment m" where
  "finish_new_lambda env name meta role_name =
     bind_m (sleep 10) (\<lambda>_.
     bind_m (provider_call env (GetFunction (PStr name))) (\<lambda>response.
     bind_m (lift_m (function_arn response)) (\<lambda>lambda_arn.
     bind_m (set_concurrency env name meta) (\<lambda>_.
     bind_m (wire_event_sources env name lambda_arn role_name meta) (\<lambda>_.
     bind_m (log_msg INFO ''Created lambda %s.'' [PStr name]) (\<lambda>_.
     lift_m (describe_lambda name meta response)))))))"

text \<open>Lines 69 to 98 of \<open>_create_lambda_from_meta\<close>, the function does not exist yet: the
  role, the dead-letter target and the create call, followed by the lines above.\<close>

definition deploy_new_lambda :: "env \<Rightarrow> string \<Rightarrow> dict \<Rightarrow> pyval \<Rightarrow> deployment m" where
  "deploy_new_lambda env name meta key =
     bind_m (lift_m (dict_index meta ''iam_role_name'')) (\<lambda>role_name.
     bind_m (provider_call env (CheckIfRoleExists role_name)) (\<lambda>role_arn.
     if \<not> truthy role_arn then
       raise_m (AssertionError [PStr (''Role '' @ py_str env role_name @ '' does not exist.'')])
     else
       bind_m (lift_m (compute_dl_target_arn env meta)) (\<lambda>dl_target_arn.
       bind_m (lift_m (create_lambda_kwargs env name meta role_arn key dl_target_arn)) (\<lambda>kwargs.
       bind_m (provider_call env (CreateLambda kwargs)) (\<lambda>_.
       finish_new_lambda env name meta role_name)))))"

definition create_lambda_from_meta :: "env \<Rightarrow> string \<Rightarrow> dict \<Rightarrow> deployment m" where
  "create_lambda_from_meta env name meta =
     bind_m (lift_m (validate_params name meta req_params)) (\<lambda>_.
     bind_m (lift_m (dict_index meta (S3_PATH_NAME env))) (\<lambda>key.
     bind_m (provider_call env (IsFileExists (PStr (deploy_target_bucket env)) key)) (\<lambda>file_exists.
     if \<not> truthy file_exists then
       raise_m (AssertionError [PStr ''Deployment package %s does not exist in %s bucket'',
                                key, PStr (deploy_target_bucket env)])
     else
       bind_m (provider_call env (GetFunction (PStr name))) (\<lambda>response.
       if truthy response then
         bind_m (log_msg WARN ''%s lambda exists.'' [PStr name]) (\<lambda>_.
         lift_m (describe_lambda name meta response))
       else deploy_new_lambda env name meta key))))"

subsection \<open>The function remover\<close>

text \<open>The loop of lines 303 to 305 over the log group names.\<close>

fun delete_log_groups :: "env \<Rightarrow> pyval \<Rightarrow> pyval list \<Rightarrow> unit m" where
  "delete_log_groups env lambda_name [] = return_m ()"
| "delete_log_groups env lambda_name (each # rest) =
     bind_m (lift_m (last_segment each)) (\<lambda>segment.
     bind_m (if lambda_name = segment
             then bind_m (provider_call env (DeleteLogGroupName each)) (\<lambda>_. return_m ())
             else return_m ()) (\<lambda>_.
     delete_log_groups env lambda_name rest))"

text \<open>The \<open>try\<close> block, lines 300 to 306.\<close>

definition remove_lambda_try :: "env \<Rightarrow> pyval \<Rightarrow> unit m" where
  "remove_lambda_try env lambda_name =
     bind_m (provider_call env (DeleteLambda lambda_name)) (\<lambda>_.
     bind_m (provider_call env (RemoveTrigger lambda_name)) (\<lambda>_.
     bind_m (provider_call env GetLogGroupNames) (\<lambda>group_names.
     bind_m (lift_m (py_iter group_names)) (\<lambda>groups.
     bind_m (delete_log_groups env lambda_name groups) (\<lambda>_.
     log_msg INFO ''Lambda %s was removed.'' [lambda_name])))))"

definition remove_lambda_body :: "env \<Rightarrow> pyval \<Rightarrow> dict \<Rightarrow> unit m" where
  "remove_lambda_body env arn config =
     bind_m (lift_m (dict_index config ''resource_name'')) (\<lambda>lambda_name.
     try_except_not_found (remove_lambda_try env lambda_name)
       (log_msg WARN ''Lambda %s is not found'' [lambda_name]))"

definition remove_lambda :: "env \<Rightarrow> pyval \<Rightarrow> dict \<Rightarrow> unit m" where
  "remove_lambda env arn config = retry env (remove_lambda_body env arn config)"

section \<open>Properties of runs\<close>

text \<open>
  What is assumed of the \<open>retry\<close> decorator: a call that returns is returned as it is.
  Nothing is assumed of what it does with an exception.
\<close>

definition retry_transparent :: "(unit m \<Rightarrow> unit m) \<Rightarrow> bool" where
  "retry_transparent r \<longleftrightarrow> (\<forall>c w w'. c w = (Inr (), w') \<longrightarrow> r c w = (Inr (), w'))"

text \<open>The test of both removers' handlers: \<open>e.response['Error']['Code'] == 'ResourceNotFoundException'\<close>.\<close>

fun is_not_found :: "error \<Rightarrow> bool" where
  "is_not_found (ClientError code msg) = (code = ''ResourceNotFoundException'')"
| "is_not_found e = False"



text \<open>
  The replies of the provider that take a run of the function reconciler to the create
  call: the required fields and the artifact path are in the metadata, the artifact is
  reported, the function is not, and the role is. \<open>before_create\<close> is the trace at that
  point.
\<close>

definition reply_truthy :: "error + pyval \<Rightarrow> bool" where
  "reply_truthy r = (case r of Inl e \<Rightarrow> False | Inr v \<Rightarrow> truthy v)"

definition reply_falsy :: "error + pyval \<Rightarrow> bool" where
  "reply_falsy r = (case r of Inl e \<Rightarrow> False | Inr v \<Rightarrow> \<not> truthy v)"

definition before_create :: "env \<Rightarrow> string \<Rightarrow> world \<Rightarrow> pyval \<Rightarrow> pyval \<Rightarrow> world" where
  "before_create env name w key role_name =
     w @ [Call (IsFileExists (PStr (deploy_target_bucket env)) key),
          Call (GetFunction (PStr name)),
          Call (CheckIfRoleExists role_name)]"

definition reaches_create ::
  "env \<Rightarrow> string \<Rightarrow> dict \<Rightarrow> world \<Rightarrow> pyval \<Rightarrow> pyval \<Rightarrow> pyval \<Rightarrow> bool" where
  "reaches_create env name meta w key role_name role_arn \<longleftrightarrow>
     list_all (\<lambda>p. map_of meta p \<noteq> None) req_params
     \<and> map_of meta (S3_PATH_NAME env) = Some key
     \<and> reply_truthy (provider env w (IsFileExists (PStr (deploy_target_bucket env)) key))
     \<and> reply_falsy (provider env
                      (w @ [Call (IsFileExists (PStr (deploy_target_bucket env)) key)])
                      (GetFunction (PStr name)))
     \<and> map_of meta ''iam_role_name'' = Some role_name
     \<and> provider env
           (w @ [Call (IsFileExists (PStr (deploy_target_bucket env)) key),
                 Call (GetFunction (PStr name))])
           (CheckIfRoleExists role_name) = Inr role_arn
     \<and> truthy role_arn"



text \<open>
  The dead-letter target as the spec words it: the interpolation of the configured type,
  the region, the account and the configured name when both are configured, else nothing.
\<close>

definition dl_target_arn_as_configured :: "env \<Rightarrow> dict \<Rightarrow> pyval" where
  "dl_target_arn_as_configured env meta =
     (case (map_of meta ''dl_resource_type'', map_of meta ''dl_resource_name'') of
        (Some dl_type, Some dl_name) \<Rightarrow>
          PStr (''arn:aws:'' @ py_str env dl_type @ '':'' @ region env @ '':''
                @ account_id env @ '':'' @ py_str env dl_name)
      | _ \<Rightarrow> PNone)"

section \<open>A provider for the examples\<close>

text \<open>
  A small provider whose state is read off the trace: a function or a stream exists once
  its create call has been issued. The stream \<open>live\<close> exists and is active, the stream
  \<open>old\<close> is being deleted, the queue \<open>q1\<close> exists, the function \<open>fn1\<close> can be deleted,
  \<open>locked\<close> may not be, the first delete of \<open>busy\<close> is throttled, and any other function
  or stream is not found on removal. The reply of \<open>get_stream\<close> has the shape that both
  modules read: a \<open>StreamDescription\<close> holding \<open>StreamARN\<close> and \<open>StreamStatus\<close>
  (\<open>lambda_resource.py\<close>, lines 226 and 227; \<open>kinesis_resource.py\<close>, line 52).
\<close>

fun creates_lambda :: "pyval \<Rightarrow> event \<Rightarrow> bool" where
  "creates_lambda n (Call (CreateLambda kwargs)) = (map_of kwargs ''lambda_name'' = Some n)"
| "creates_lambda n e = False"

fun creates_stream :: "pyval \<Rightarrow> event \<Rightarrow> bool" where
  "creates_stream n (Call (CreateStream s k)) = (s = n)"
| "creates_stream n e = False"

definition fake_function :: "pyval \<Rightarrow> pyval" where
  "fake_function n =
     PDict [(''Configuration'',
             PDict [(''FunctionName'', n),
                    (''FunctionArn'', PStr ''arn:aws:lambda:eu-west-1:123456789012:function:fn1'')])]"

definition fake_stream :: "string \<Rightarrow> pyval" where
  "fake_stream status =
     PDict [(''StreamDescription'',
             PDict [(''StreamARN'', PStr ''arn:aws:kinesis:eu-west-1:123456789012:stream/s1''),
                    (''StreamStatus'', PStr status)])]"

fun fake_provider :: "event list \<Rightarrow> call \<Rightarrow> error + pyval" where
  "fake_provider tr (IsFileExists b k) = Inr (PBool True)"
| "fake_provider tr (GetFunction n) =
     (if list_ex (creates_lambda n) tr then Inr (fake_function n) else Inr PNone)"
| "fake_provider tr (CheckIfRoleExists r) = Inr (PStr ''arn:aws:iam::123456789012:role/r1'')"
| "fake_provider tr (GetQueueUrl q a) =
     (if q = PStr ''q1'' then Inr (PStr ''https://sqs.eu-west-1.amazonaws.com/123456789012/q1'')
      else Inr PNone)"
| "fake_provider tr (GetStream n) =
     (if list_ex (creates_stream n) tr \<or> n = PStr ''live'' then Inr (fake_stream ''ACTIVE'')
      else if n = PStr ''old'' then Inr (fake_stream ''DELETING'')
      else Inr PNone)"
| "fake_provider tr (DeleteLambda n) =
     (if n = PStr ''fn1'' then Inr PNone
      else if n = PStr ''locked'' then Inl (ClientError ''AccessDeniedException'' ''denied'')
      else if n = PStr ''busy'' then
        (if Call (DeleteLambda n) \<in> set tr then Inr PNone
         else Inl (ClientError ''ThrottlingException'' ''Rate exceeded''))
      else Inl (ClientError ''ResourceNotFoundException'' ''Function not found''))"
| "fake_provider tr (RemoveStream n) =
     (if n = PStr ''s1'' then Inr PNone
      else if n = PStr ''locked'' then Inl (ClientError ''AccessDeniedException'' ''denied'')
      else Inl (ClientError ''ResourceNotFoundException'' ''Stream not found''))"
| "fake_provider tr GetLogGroupNames =
     Inr (PList [PStr ''/aws/lambda/fn1'', PStr ''/aws/lambda/myfn1'',
                 PStr ''/aws/lambda/fn2'', PStr ''/custom/fn1''])"
| "fake_provider tr c = Inr PNone"

text \<open>A decorator for the examples: one more attempt after a throttling error.\<close>

definition retry_once :: "unit m \<Rightarrow> unit m" where
  "retry_once c w =
     (case c w of
        (Inl (ClientError code msg), w') \<Rightarrow>
          (if code = ''ThrottlingException'' then c w' else (Inl (ClientError code msg), w'))
      | r \<Rightarrow> r)"

definition fake_env :: env where
  "fake_env =
     \<lparr>region = ''eu-west-1'',
      account_id = ''123456789012'',
      deploy_target_bucket = ''deploy-bucket'',
      S3_PATH_NAME = ''s3_path'',
      provider = fake_provider,
      retry = retry_once,
      py_repr = (\<lambda>v. ''[...]''),
      py_le_other = (\<lambda>a b. Inl TypeError)\<rparr>"

definition fn1_meta :: dict where
  "fn1_meta =
     [(''iam_role_name'', PStr ''r1''),
      (''runtime'', PStr ''Python3.7''),
      (''memory'', PInt 128),
      (''timeout'', PInt 30),
      (''func_name'', PStr ''handler''),
      (''s3_path'', PStr ''bundle/fn1.zip'')]"

text \<open>The keyword arguments of the create call for \<open>fn1\<close>.\<close>

definition fn1_kwargs :: dict where
  "fn1_kwargs =
     [(''lambda_name'', PStr ''fn1''),
      (''func_name'', PStr ''handler''),
      (''role'', PStr ''arn:aws:iam::123456789012:role/r1''),
      (''runtime'', PStr ''python3.7''),
      (''memory'', PInt 128),
      (''timeout'', PInt 30),
      (''s3_bucket'', PStr ''deploy-bucket''),
      (''s3_key'', PStr ''bundle/fn1.zip''),
      (''env_vars'', PNone),
      (''vpc_sub_nets'', PNone),
      (''vpc_security_group'', PNone),
      (''dl_target_arn'', PNone),
      (''tracing_mode'', PNone)]"

text \<open>A queue trigger specification.\<close>

definition sqs_spec :: "string \<Rightarrow> dict" where
  "sqs_spec queue =
     [(''resource_type'', PStr ''sqs_trigger''),
      (''target_queue'', PStr queue),
      (''batch_size'', PInt 10)]"



text \<open>\<open>fn1\<close> with a dead-letter queue, the type in upper case, and the keyword arguments of
  its create call.\<close>

definition fn1_dl_meta :: dict where
  "fn1_dl_meta =
     fn1_meta @ [(''dl_resource_type'', PStr ''SQS''), (''dl_resource_name'', PStr ''dlq'')]"

definition fn1_dl_kwargs :: dict where
  "fn1_dl_kwargs =
     AList.update ''dl_target_arn'' (PStr ''arn:aws:sqs:eu-west-1:123456789012:dlq'') fn1_kwargs"

section \<open>Running the state and error monad\<close>

lemma bind_m_lift_m [simp]:
  "bind_m (lift_m r) f w = (case r of Inl e \<Rightarrow> (Inl e, w) | Inr x \<Rightarrow> f x w)"
  by (simp add: bind_m_def lift_m_def split: sum.splits)

lemma bind_m_provider_call [simp]:
  "bind_m (provider_call env c) f w =
     (case provider env w c of Inl e \<Rightarrow> (Inl e, w @ [Call c]) | Inr v \<Rightarrow> f v (w @ [Call c]))"
  by (simp add: bind_m_def provider_call_def split: sum.splits)

lemma bind_m_log_msg [simp]: "bind_m (log_msg l msg args) f w = f () (w @ [Log l msg args])"
  by (simp add: bind_m_def log_msg_def)

lemma bind_m_sleep [simp]: "bind_m (sleep n) f w = f () (w @ [Sleep n])"
  by (simp add: bind_m_def sleep_def)

lemma bind_m_return_m [simp]: "bind_m (return_m x) f w = f x w"
  by (simp add: bind_m_def return_m_def)

lemma validate_params_missing:
  "\<exists>p \<in> set ps. map_of meta p = None \<Longrightarrow> validate_params name meta ps = Inl ValidationError"
  by (auto simp: validate_params_def list_all_iff)

lemma validate_params_present:
  "\<forall>p \<in> set ps. map_of meta p \<noteq> None \<Longrightarrow> validate_params name meta ps = Inr ()"
  by (auto simp: validate_params_def list_all_iff)

lemma retry_transparent_retry_once: "retry_transparent retry_once"
  by (simp add: retry_transparent_def retry_once_def)

lemma retry_transparentD:
  "retry_transparent r \<Longrightarrow> c w = (Inr (), w') \<Longrightarrow> r c w = (Inr (), w')"
  by (simp add: retry_transparent_def)

section \<open>The removers on a failing delete\<close>

lemma remove_lambda_body_delete_raises:
  assumes "map_of config ''resource_name'' = Some n"
    and "provider env w (DeleteLambda n) = Inl e"
  shows "remove_lambda_body env arn config w =
           (if is_not_found e
            then (Inr (), w @ [Call (DeleteLambda n), Log WARN ''Lambda %s is not found'' [n]])
            else (Inl e, w @ [Call (DeleteLambda n)]))"
  using assms unfolding remove_lambda_body_def remove_lambda_try_def
  by (cases e) (simp_all add: dict_index_def try_except_not_found_def log_msg_def)

lemma remove_kinesis_stream_raises:
  assumes "map_of config ''resource_name'' = Some n"
    and "provider env w (RemoveStream n) = Inl e"
  shows "remove_kinesis_stream env arn config w =
           (if is_not_found e
            then (Inr (), w @ [Call (RemoveStream n), Log WARN ''Kinesis stream %s is not found'' [n]])
            else (Inl e, w @ [Call (RemoveStream n)]))"
  using assms unfolding remove_kinesis_stream_def
  by (cases e) (simp_all add: dict_index_def try_except_not_found_def log_msg_def)

section \<open>The stream reconciler\<close>



section \<open>Reconciling a function twice\<close>

text \<open>What a successful run of the function reconciler has returned: the record built by
  \<open>describe_lambda\<close> from a reply of \<open>get_function\<close>, keyed by the identifier in that
  reply.\<close>

lemma bind_m_Inr:
  assumes "bind_m c f w = (Inr r, w')"
  obtains x w'' where "c w = (Inr x, w'')" and "f x w'' = (Inr r, w')"
  using assms by (auto simp: bind_m_def split: prod.splits sum.splits)

lemma single_entry_Inr:
  "single_entry k d = Inr r \<Longrightarrow> r = [(k, d)] \<and> hashable k"
  by (auto simp: single_entry_def split: if_splits)

lemma describe_lambda_Inr:
  assumes "describe_lambda name meta response = Inr r"
  shows "\<exists>arn d. function_arn response = Inr arn \<and> r = [(arn, d)] \<and> hashable arn"
  using assms unfolding describe_lambda_def bind_e_def
  by (auto split: sum.splits dest: single_entry_Inr)

lemma lift_m_Inr: "lift_m x w = (Inr r, w') \<Longrightarrow> x = Inr r"
  by (simp add: lift_m_def)

lemma finish_new_lambda_Inr:
  assumes "finish_new_lambda env name meta role_name w = (Inr r, w')"
  shows "\<exists>tr response. provider env tr (GetFunction (PStr name)) = Inr response
           \<and> describe_lambda name meta response = Inr r"
  using assms unfolding finish_new_lambda_def
  by (auto split: sum.splits elim!: bind_m_Inr dest!: lift_m_Inr)

lemma deploy_new_lambda_Inr:
  assumes "deploy_new_lambda env name meta key w = (Inr r, w')"
  shows "\<exists>tr response. provider env tr (GetFunction (PStr name)) = Inr response
           \<and> describe_lambda name meta response = Inr r"
  using assms unfolding deploy_new_lambda_def
  by (auto simp: raise_m_def split: sum.splits if_splits
      dest!: lift_m_Inr finish_new_lambda_Inr)

lemma create_lambda_from_meta_Inr:
  assumes "create_lambda_from_meta env name meta w = (Inr r, w')"
  shows "validate_params name meta req_params = Inr ()
         \<and> (\<exists>tr response. provider env tr (GetFunction (PStr name)) = Inr response
               \<and> describe_lambda name meta response = Inr r)"
  using assms unfolding create_lambda_from_meta_def
  by (auto simp: raise_m_def split: sum.splits if_splits dest!: lift_m_Inr deploy_new_lambda_Inr)

text \<open>
  The function kind is idempotent. A first run has returned the record \<open>r1\<close> and left the
  trace \<open>w1\<close>; on the second run the artifact is still there and \<open>get_function\<close> reports
  the function, with the identifier \<open>arn\<close>; the provider never reports the function under
  another identifier. Then \<open>arn\<close> is the key of \<open>r1\<close>, the second run returns the one-entry
  record with the same key and the description of the reply just read, and it adds two
  queries and a warning to the trace: no create call.
\<close>

lemma function_reconcile_twice:
  assumes first: "create_lambda_from_meta env name meta w0 = (Inr r1, w1)"
    and key: "map_of meta (S3_PATH_NAME env) = Some key"
    and artifact:
      "provider env w1 (IsFileExists (PStr (deploy_target_bucket env)) key) = Inr file_exists"
      "truthy file_exists"
    and found: "provider env (w1 @ [Call (IsFileExists (PStr (deploy_target_bucket env)) key)])
                  (GetFunction (PStr name)) = Inr response"
      "truthy response"
      "function_arn response = Inr arn"
    and stable: "\<forall>tr reply a. provider env tr (GetFunction (PStr name)) = Inr reply
                   \<longrightarrow> function_arn reply = Inr a \<longrightarrow> a = arn"
  shows "map fst r1 = [arn]
         \<and> create_lambda_from_meta env name meta w1 =
             (Inr [(arn, build_description_obj (del_function_arn response) name meta)],
              w1 @ [Call (IsFileExists (PStr (deploy_target_bucket env)) key),
                    Call (GetFunction (PStr name)),
                    Log WARN ''%s lambda exists.'' [PStr name]])"
proof
  from create_lambda_from_meta_Inr [OF first]
  obtain tr reply where v: "validate_params name meta req_params = Inr ()"
    and reply: "provider env tr (GetFunction (PStr name)) = Inr reply"
    and r1: "describe_lambda name meta reply = Inr r1"
    by blast
  from describe_lambda_Inr [OF r1]
  obtain a d where a: "function_arn reply = Inr a" and shape: "r1 = [(a, d)]"
    and h: "hashable a"
    by blast
  from stable reply a have "a = arn"
    by blast
  with shape show "map fst r1 = [arn]"
    by simp
  from \<open>a = arn\<close> h have "hashable arn"
    by simp
  then show "create_lambda_from_meta env name meta w1 =
      (Inr [(arn, build_description_obj (del_function_arn response) name meta)],
       w1 @ [Call (IsFileExists (PStr (deploy_target_bucket env)) key),
             Call (GetFunction (PStr name)),
             Log WARN ''%s lambda exists.'' [PStr name]])"
    unfolding create_lambda_from_meta_def
    by (simp add: v key artifact found dict_index_def lift_m_def describe_lambda_def
        bind_e_def single_entry_def)
qed

section \<open>Runs on the example provider\<close>

lemmas run_defs =
  create_lambda_from_meta_def deploy_new_lambda_def finish_new_lambda_def validate_params_def
  req_params_def dict_index_def dict_get_def compute_dl_target_arn_def create_lambda_kwargs_def
  bind_e_def
  set_concurrency_def wire_event_sources_def function_arn_def describe_lambda_def
  single_entry_def lift_m_def return_m_def raise_m_def

lemma fn1_first_run:
  "create_lambda_from_meta fake_env ''fn1'' fn1_meta [] =
     (Inr [(PStr ''arn:aws:lambda:eu-west-1:123456789012:function:fn1'',
            build_description_obj
              (PDict [(''Configuration'', PDict [(''FunctionName'', PStr ''fn1'')])])
              ''fn1'' fn1_meta)],
      [Call (IsFileExists (PStr ''deploy-bucket'') (PStr ''bundle/fn1.zip'')),
       Call (GetFunction (PStr ''fn1'')),
       Call (CheckIfRoleExists (PStr ''r1'')),
       Call (CreateLambda fn1_kwargs),
       Sleep 10,
       Call (GetFunction (PStr ''fn1'')),
       Log INFO ''Created lambda %s.'' [PStr ''fn1'']])"
  by (simp add: run_defs fake_env_def fn1_meta_def fn1_kwargs_def fake_function_def
      ascii_lower_def AList.delete_eq)

lemma fn1_second_run:
  "create_lambda_from_meta fake_env ''fn1'' fn1_meta
     [Call (IsFileExists (PStr ''deploy-bucket'') (PStr ''bundle/fn1.zip'')),
      Call (GetFunction (PStr ''fn1'')),
      Call (CheckIfRoleExists (PStr ''r1'')),
      Call (CreateLambda fn1_kwargs),
      Sleep 10,
      Call (GetFunction (PStr ''fn1'')),
      Log INFO ''Created lambda %s.'' [PStr ''fn1'']] =
     (Inr [(PStr ''arn:aws:lambda:eu-west-1:123456789012:function:fn1'',
            build_description_obj
              (PDict [(''Configuration'', PDict [(''FunctionName'', PStr ''fn1'')])])
              ''fn1'' fn1_meta)],
      [Call (IsFileExists (PStr ''deploy-bucket'') (PStr ''bundle/fn1.zip'')),
       Call (GetFunction (PStr ''fn1'')),
       Call (CheckIfRoleExists (PStr ''r1'')),
       Call (CreateLambda fn1_kwargs),
       Sleep 10,
       Call (GetFunction (PStr ''fn1'')),
       Log INFO ''Created lambda %s.'' [PStr ''fn1''],
       Call (IsFileExists (PStr ''deploy-bucket'') (PStr ''bundle/fn1.zip'')),
       Call (GetFunction (PStr ''fn1'')),
       Log WARN ''%s lambda exists.'' [PStr ''fn1'']])"
  by (simp add: run_defs fake_env_def fn1_meta_def fn1_kwargs_def fake_function_def
      AList.delete_eq)

section \<open>The dispatch of a trigger specification\<close>







section \<open>The run up to the create call and to the loop over the trigger specifications\<close>





lemma reaches_create_run:
  assumes "reaches_create env name meta w key role_name role_arn"
  shows "create_lambda_from_meta env name meta w =
           (case bind_e (compute_dl_target_arn env meta)
                   (create_lambda_kwargs env name meta role_arn key) of
              Inl e \<Rightarrow> (Inl e, before_create env name w key role_name)
            | Inr kwargs \<Rightarrow>
                (case provider env (before_create env name w key role_name)
                        (CreateLambda kwargs) of
                   Inl e \<Rightarrow>
                     (Inl e, before_create env name w key role_name @ [Call (CreateLambda kwargs)])
                 | Inr created \<Rightarrow>
                     finish_new_lambda env name meta role_name
                       (before_create env name w key role_name @ [Call (CreateLambda kwargs)])))"
proof -
  from assms have v: "validate_params name meta req_params = Inr ()"
    by (simp add: reaches_create_def validate_params_def)
  from assms obtain file_exists absent
    where f: "provider env w (IsFileExists (PStr (deploy_target_bucket env)) key)
                = Inr file_exists" "truthy file_exists"
      and a: "provider env (w @ [Call (IsFileExists (PStr (deploy_target_bucket env)) key)])
                (GetFunction (PStr name)) = Inr absent" "\<not> truthy absent"
    by (auto simp: reaches_create_def reply_truthy_def reply_falsy_def split: sum.splits)
  from assms have k: "map_of meta (S3_PATH_NAME env) = Some key"
    and r: "map_of meta ''iam_role_name'' = Some role_name"
    and ra: "provider env
           (w @ [Call (IsFileExists (PStr (deploy_target_bucket env)) key),
                 Call (GetFunction (PStr name))])
           (CheckIfRoleExists role_name) = Inr role_arn" "truthy role_arn"
    by (simp_all add: reaches_create_def)
  show ?thesis
    unfolding create_lambda_from_meta_def deploy_new_lambda_def before_create_def
    by (simp add: v k f a r ra dict_index_def bind_e_def split: sum.splits)
qed




section \<open>The queue trigger\<close>



text \<open>The two scenarios of the spec, with the tag of the dispatch table: the function
  \<open>fn1\<close> with one queue trigger, on a queue that is absent and on one that exists.\<close>

lemma fn1_with_absent_queue:
  "create_lambda_from_meta fake_env ''fn1''
     (fn1_meta @ [(''event_sources'', PList [PDict (sqs_spec ''q2'')])]) [] =
     (Inr [(PStr ''arn:aws:lambda:eu-west-1:123456789012:function:fn1'',
            build_description_obj
              (PDict [(''Configuration'', PDict [(''FunctionName'', PStr ''fn1'')])])
              ''fn1'' (fn1_meta @ [(''event_sources'', PList [PDict (sqs_spec ''q2'')])]))],
      [Call (IsFileExists (PStr ''deploy-bucket'') (PStr ''bundle/fn1.zip'')),
       Call (GetFunction (PStr ''fn1'')),
       Call (CheckIfRoleExists (PStr ''r1'')),
       Call (CreateLambda fn1_kwargs),
       Sleep 10,
       Call (GetFunction (PStr ''fn1'')),
       Call (GetQueueUrl (PStr ''q2'') (PStr ''123456789012'')),
       Log DEBUG ''Queue %s does not exist'' [PStr ''q2''],
       Log INFO ''Created lambda %s.'' [PStr ''fn1'']])"
  by (simp add: run_defs fake_env_def fn1_meta_def fn1_kwargs_def fake_function_def
      ascii_lower_def AList.delete_eq sqs_spec_def create_trigger_def trigger_lookup_def
      CREATE_TRIGGER_def create_sqs_trigger_from_meta_def create_sqs_trigger_from_meta_body_def
      retry_once_def log_msg_def bind_m_def provider_call_def sleep_def)

lemma fn1_with_present_queue:
  "create_lambda_from_meta fake_env ''fn1''
     (fn1_meta @ [(''event_sources'', PList [PDict (sqs_spec ''q1'')])]) [] =
     (Inr [(PStr ''arn:aws:lambda:eu-west-1:123456789012:function:fn1'',
            build_description_obj
              (PDict [(''Configuration'', PDict [(''FunctionName'', PStr ''fn1'')])])
              ''fn1'' (fn1_meta @ [(''event_sources'', PList [PDict (sqs_spec ''q1'')])]))],
      [Call (IsFileExists (PStr ''deploy-bucket'') (PStr ''bundle/fn1.zip'')),
       Call (GetFunction (PStr ''fn1'')),
       Call (CheckIfRoleExists (PStr ''r1'')),
       Call (CreateLambda fn1_kwargs),
       Sleep 10,
       Call (GetFunction (PStr ''fn1'')),
       Call (GetQueueUrl (PStr ''q1'') (PStr ''123456789012'')),
       Call (AddEventSource (PStr ''fn1'') (PStr ''arn:aws:sqs:eu-west-1:123456789012:q1'')
               (PInt 10) None),
       Log INFO ''Lambda %s subscribed to SQS queue %s'' [PStr ''fn1'', PStr ''q1''],
       Log INFO ''Created lambda %s.'' [PStr ''fn1'']])"
  by (simp add: run_defs fake_env_def fn1_meta_def fn1_kwargs_def fake_function_def
      ascii_lower_def AList.delete_eq sqs_spec_def create_trigger_def trigger_lookup_def
      CREATE_TRIGGER_def create_sqs_trigger_from_meta_def create_sqs_trigger_from_meta_body_def
      retry_once_def log_msg_def py_str_def bind_m_def provider_call_def sleep_def)

section \<open>The loop over the log groups\<close>

text \<open>\<open>split\<close> gives at least one segment, and the last segment is the end of the
  string: a log group that the remover deletes has a name that ends in the function's
  name.\<close>

lemma split_on_not_empty: "split_on c s \<noteq> []"
  by (induction s) (auto split: list.splits)

lemma split_on_single: "split_on c s = [y] \<Longrightarrow> y = s"
proof (induction s arbitrary: y)
  case Nil
  then show ?case by simp
next
  case (Cons x xs)
  obtain z zs where s: "split_on c xs = z # zs"
    using split_on_not_empty [of c xs] by (cases "split_on c xs") auto
  from Cons.prems s have "x \<noteq> c"
    by (auto split: if_splits)
  with Cons.prems s have "zs = []" and "y = x # z"
    by simp_all
  with s Cons.IH [of z] show ?case
    by simp
qed

lemma last_split_on_suffix: "suffix (last (split_on c s)) s"
proof (induction s)
  case Nil
  then show ?case by simp
next
  case (Cons x xs)
  obtain y ys where s: "split_on c xs = y # ys"
    using split_on_not_empty [of c xs] by (cases "split_on c xs") auto
  show ?case
  proof (cases "x = c")
    case True
    with Cons s show ?thesis
      by (simp add: suffix_Cons)
  next
    case False
    show ?thesis
    proof (cases ys)
      case Nil
      with s have "y = xs"
        by (simp add: split_on_single)
      with s Nil False show ?thesis
        by simp
    next
      case (Cons z zs)
      with s False \<open>suffix (last (split_on c xs)) xs\<close> show ?thesis
        by (simp add: suffix_Cons)
    qed
  qed
qed

lemma delete_log_groups_match:
  assumes "provider env w (DeleteLogGroupName (PStr g)) = Inr v"
  shows "delete_log_groups env (PStr (last (split_on CHR ''/'' g))) (PStr g # rest) w =
           delete_log_groups env (PStr (last (split_on CHR ''/'' g))) rest
             (w @ [Call (DeleteLogGroupName (PStr g))])"
  by (simp add: bind_m_def provider_call_def return_m_def lift_m_def assms)

lemma delete_log_groups_other:
  assumes "n \<noteq> PStr (last (split_on CHR ''/'' g))"
  shows "delete_log_groups env n (PStr g # rest) w = delete_log_groups env n rest w"
  using assms by simp

lemma delete_log_groups_run:
  assumes "\<forall>tr. \<forall>g \<in> set names. \<exists>v. provider env tr (DeleteLogGroupName (PStr g)) = Inr v"
  shows "delete_log_groups env n (map PStr names) w =
           (Inr (), w @ map (\<lambda>g. Call (DeleteLogGroupName (PStr g)))
                        (filter (\<lambda>g. n = PStr (last (split_on CHR ''/'' g))) names))"
  using assms
proof (induction names arbitrary: w)
  case Nil
  then show ?case by (simp add: return_m_def)
next
  case (Cons g gs)
  from Cons.prems obtain v where v: "provider env w (DeleteLogGroupName (PStr g)) = Inr v"
    by auto
  from Cons.prems
  have rest: "\<forall>tr. \<forall>g \<in> set gs. \<exists>v. provider env tr (DeleteLogGroupName (PStr g)) = Inr v"
    by simp
  show ?case
  proof (cases "n = PStr (last (split_on CHR ''/'' g))")
    case True
    have "delete_log_groups env n (PStr g # map PStr gs) w =
            delete_log_groups env n (map PStr gs) (w @ [Call (DeleteLogGroupName (PStr g))])"
      unfolding True by (rule delete_log_groups_match [OF v])
    also have "\<dots> = (Inr (), (w @ [Call (DeleteLogGroupName (PStr g))])
                          @ map (\<lambda>g. Call (DeleteLogGroupName (PStr g)))
                              (filter (\<lambda>g. n = PStr (last (split_on CHR ''/'' g))) gs))"
      by (rule Cons.IH [OF rest])
    finally show ?thesis
      using True by simp
  next
    case False
    have "delete_log_groups env n (PStr g # map PStr gs) w =
            delete_log_groups env n (map PStr gs) w"
      by (rule delete_log_groups_other [OF False])
    also have "\<dots> = (Inr (), w @ map (\<lambda>g. Call (DeleteLogGroupName (PStr g)))
                              (filter (\<lambda>g. n = PStr (last (split_on CHR ''/'' g))) gs))"
      by (rule Cons.IH [OF rest])
    finally show ?thesis
      using False by simp
  qed
qed

lemma remove_fn1_run:
  "remove_lambda fake_env PNone [(''resource_name'', PStr ''fn1'')] [] =
     (Inr (),
      [Call (DeleteLambda (PStr ''fn1'')),
       Call (RemoveTrigger (PStr ''fn1'')),
       Call GetLogGroupNames,
       Call (DeleteLogGroupName (PStr ''/aws/lambda/fn1'')),
       Call (DeleteLogGroupName (PStr ''/custom/fn1'')),
       Log INFO ''Lambda %s was removed.'' [PStr ''fn1'']])"
  by (simp add: remove_lambda_def remove_lambda_body_def remove_lambda_try_def fake_env_def
      retry_once_def try_except_not_found_def dict_index_def bind_m_def provider_call_def
      lift_m_def return_m_def log_msg_def)

section \<open>The claims\<close>

text \<open>
  C2, validation first. When the metadata lacks one of the five required fields, the
  function reconciler raises the validation error and leaves the trace as it found it: no
  provider call of any kind, so no create, no trigger wiring and no permission grant, has
  been issued.
\<close>

theorem create_lambda_validation_first:
  assumes "\<exists>p \<in> set req_params. map_of meta p = None"
  shows "create_lambda_from_meta env name meta w = (Inl ValidationError, w)"
  unfolding create_lambda_from_meta_def
  by (simp add: validate_params_missing [OF assms])

theorem create_lambda_validation_first_witness:
  "(\<exists>p \<in> set req_params. map_of (AList.delete ''timeout'' fn1_meta) p = None)
   \<and> create_lambda_from_meta fake_env ''fn1'' (AList.delete ''timeout'' fn1_meta) []
       = (Inl ValidationError, [])"
proof -
  have h: "\<exists>p \<in> set req_params. map_of (AList.delete ''timeout'' fn1_meta) p = None"
    by (simp add: req_params_def fn1_meta_def AList.delete_eq)
  from h create_lambda_validation_first [OF h, of fake_env "''fn1''" "[]"]
  show ?thesis by simp
qed

text \<open>
  C9, the artifact path is not a validated field. When the metadata has the five required
  fields and lacks the key \<open>S3_PATH_NAME\<close>, the function reconciler raises the \<open>KeyError\<close>
  of the direct indexing \<open>meta[S3_PATH_NAME]\<close>, which is not the validation error, and the
  trace is as it was: no provider call has been issued.
\<close>

theorem missing_artifact_key_is_key_error:
  assumes "\<forall>p \<in> set req_params. map_of meta p \<noteq> None"
    and "map_of meta (S3_PATH_NAME env) = None"
  shows "create_lambda_from_meta env name meta w = (Inl (KeyError (PStr (S3_PATH_NAME env))), w)
         \<and> KeyError (PStr (S3_PATH_NAME env)) \<noteq> ValidationError"
  unfolding create_lambda_from_meta_def
  by (simp add: validate_params_present [OF assms(1)] assms(2) dict_index_def)

theorem missing_artifact_key_is_key_error_witness:
  "list_all (\<lambda>p. map_of (AList.delete ''s3_path'' fn1_meta) p \<noteq> None) req_params
   \<and> map_of (AList.delete ''s3_path'' fn1_meta) (S3_PATH_NAME fake_env) = None
   \<and> create_lambda_from_meta fake_env ''fn1'' (AList.delete ''s3_path'' fn1_meta) []
       = (Inl (KeyError (PStr ''s3_path'')), [])"
proof -
  have h1: "\<forall>p \<in> set req_params. map_of (AList.delete ''s3_path'' fn1_meta) p \<noteq> None"
    by (simp add: req_params_def fn1_meta_def AList.delete_eq)
  have h2: "map_of (AList.delete ''s3_path'' fn1_meta) (S3_PATH_NAME fake_env) = None"
    by (simp add: fn1_meta_def fake_env_def AList.delete_eq)
  from h1 h2 missing_artifact_key_is_key_error [OF h1 h2, of "''fn1''" "[]"]
  show ?thesis by (simp add: fake_env_def list_all_iff)
qed

text \<open>
  C4, removal tolerance. As claimed, both removers end a not-found delete with a warning
  and a normal return, and the stream remover raises any other error again, unchanged.
  The function remover is decorated with \<open>retry\<close>: its body raises any other error again,
  unchanged, but it is the decorator that receives it. With a decorator that runs a
  throttled call again (\<open>retry_once\<close>), the removal of \<open>busy\<close> on the example provider,
  whose first delete is throttled, returns normally: the claim as worded (every other
  provider error is re-raised by the function remover) fails there.
\<close>

theorem decorated_remover_retries_counterexample:
  "provider fake_env [] (DeleteLambda (PStr ''busy''))
     = Inl (ClientError ''ThrottlingException'' ''Rate exceeded'')
   \<and> \<not> is_not_found (ClientError ''ThrottlingException'' ''Rate exceeded'')
   \<and> remove_lambda_body fake_env PNone [(''resource_name'', PStr ''busy'')] []
     = (Inl (ClientError ''ThrottlingException'' ''Rate exceeded''),
        [Call (DeleteLambda (PStr ''busy''))])
   \<and> remove_lambda fake_env PNone [(''resource_name'', PStr ''busy'')] []
     = (Inr (),
        [Call (DeleteLambda (PStr ''busy'')),
         Call (DeleteLambda (PStr ''busy'')),
         Call (RemoveTrigger (PStr ''busy'')),
         Call GetLogGroupNames,
         Log INFO ''Lambda %s was removed.'' [PStr ''busy'']])"
  by (simp add: remove_lambda_def remove_lambda_body_def remove_lambda_try_def fake_env_def
      retry_once_def try_except_not_found_def dict_index_def bind_m_def provider_call_def
      lift_m_def return_m_def log_msg_def)

text \<open>
  C4 as amended. For both removers and any exception \<open>e\<close> that the provider's delete
  raises: when \<open>e\<close> is the client error with code \<open>ResourceNotFoundException\<close> the remover
  returns without raising, having logged a warning (for the function remover, through a
  \<open>retry\<close> that returns what returns). When \<open>e\<close> is any other error, the stream remover
  raises \<open>e\<close> itself, unchanged, and the body of the function remover raises \<open>e\<close> itself,
  unchanged, to the \<open>retry\<close> decorator around it; what \<open>_remove_lambda\<close> as a whole does
  with it is the decorator's part, which may run the body again.
\<close>

theorem removal_tolerance:
  assumes "map_of config ''resource_name'' = Some n"
  shows "(provider env w (RemoveStream n) = Inl e \<longrightarrow>
            remove_kinesis_stream env arn config w =
              (if is_not_found e
               then (Inr (), w @ [Call (RemoveStream n),
                                  Log WARN ''Kinesis stream %s is not found'' [n]])
               else (Inl e, w @ [Call (RemoveStream n)])))
       \<and> (provider env w (DeleteLambda n) = Inl e \<longrightarrow>
            remove_lambda_body env arn config w =
              (if is_not_found e
               then (Inr (), w @ [Call (DeleteLambda n), Log WARN ''Lambda %s is not found'' [n]])
               else (Inl e, w @ [Call (DeleteLambda n)])))
       \<and> (provider env w (DeleteLambda n) = Inl e \<longrightarrow> is_not_found e \<longrightarrow>
            retry_transparent (retry env) \<longrightarrow>
            remove_lambda env arn config w =
              (Inr (), w @ [Call (DeleteLambda n), Log WARN ''Lambda %s is not found'' [n]]))"
proof (intro conjI impI)
  assume "provider env w (RemoveStream n) = Inl e"
  then show "remove_kinesis_stream env arn config w =
      (if is_not_found e
       then (Inr (), w @ [Call (RemoveStream n), Log WARN ''Kinesis stream %s is not found'' [n]])
       else (Inl e, w @ [Call (RemoveStream n)]))"
    by (rule remove_kinesis_stream_raises [OF assms])
next
  assume "provider env w (DeleteLambda n) = Inl e"
  then show "remove_lambda_body env arn config w =
      (if is_not_found e
       then (Inr (), w @ [Call (DeleteLambda n), Log WARN ''Lambda %s is not found'' [n]])
       else (Inl e, w @ [Call (DeleteLambda n)]))"
    by (rule remove_lambda_body_delete_raises [OF assms])
next
  assume e: "provider env w (DeleteLambda n) = Inl e" and nf: "is_not_found e"
    and t: "retry_transparent (retry env)"
  have "remove_lambda_body env arn config w =
      (Inr (), w @ [Call (DeleteLambda n), Log WARN ''Lambda %s is not found'' [n]])"
    using remove_lambda_body_delete_raises [OF assms e] nf by simp
  then show "remove_lambda env arn config w =
      (Inr (), w @ [Call (DeleteLambda n), Log WARN ''Lambda %s is not found'' [n]])"
    unfolding remove_lambda_def by (rule retry_transparentD [OF t])
qed

theorem removal_tolerance_witness:
  "remove_kinesis_stream fake_env PNone [(''resource_name'', PStr ''gone'')] []
     = (Inr (), [Call (RemoveStream (PStr ''gone'')),
                 Log WARN ''Kinesis stream %s is not found'' [PStr ''gone'']])
   \<and> remove_lambda fake_env PNone [(''resource_name'', PStr ''gone'')] []
     = (Inr (), [Call (DeleteLambda (PStr ''gone'')),
                 Log WARN ''Lambda %s is not found'' [PStr ''gone'']])
   \<and> remove_kinesis_stream fake_env PNone [(''resource_name'', PStr ''locked'')] []
     = (Inl (ClientError ''AccessDeniedException'' ''denied''),
        [Call (RemoveStream (PStr ''locked''))])
   \<and> remove_lambda_body fake_env PNone [(''resource_name'', PStr ''locked'')] []
     = (Inl (ClientError ''AccessDeniedException'' ''denied''),
        [Call (DeleteLambda (PStr ''locked''))])"
proof -
  have g: "map_of [(''resource_name'', PStr ''gone'')] ''resource_name'' = Some (PStr ''gone'')"
    by simp
  have l: "map_of [(''resource_name'', PStr ''locked'')] ''resource_name'' = Some (PStr ''locked'')"
    by simp
  have t: "retry_transparent (retry fake_env)"
    by (simp add: fake_env_def retry_transparent_retry_once)
  show ?thesis
    using removal_tolerance [OF g, of fake_env "[]"
        "ClientError ''ResourceNotFoundException'' ''Stream not found''" PNone]
      removal_tolerance [OF g, of fake_env "[]"
        "ClientError ''ResourceNotFoundException'' ''Function not found''" PNone]
      removal_tolerance [OF l, of fake_env "[]"
        "ClientError ''AccessDeniedException'' ''denied''" PNone] t
    by (simp add: fake_env_def)
qed

text \<open>
  C10, no cleanup when the function is already gone. When the delete-function call raises
  the not-found error, the run of the remover consists of that one call and the warning:
  neither the removal of the trigger bindings nor the listing or deletion of log groups
  is issued, so log groups left behind by the function stay.
\<close>

theorem remove_lambda_not_found_skips_cleanup:
  assumes "retry_transparent (retry env)"
    and "map_of config ''resource_name'' = Some n"
    and "provider env w (DeleteLambda n) = Inl (ClientError ''ResourceNotFoundException'' msg)"
  shows "remove_lambda env arn config w =
           (Inr (), w @ [Call (DeleteLambda n), Log WARN ''Lambda %s is not found'' [n]])"
  unfolding remove_lambda_def
  by (rule retry_transparentD [OF assms(1)])
     (simp add: remove_lambda_body_delete_raises [OF assms(2,3)])

theorem remove_lambda_not_found_skips_cleanup_witness:
  "remove_lambda fake_env PNone [(''resource_name'', PStr ''fn9'')] []
     = (Inr (), [Call (DeleteLambda (PStr ''fn9'')),
                 Log WARN ''Lambda %s is not found'' [PStr ''fn9'']])
   \<and> provider fake_env [Call (DeleteLambda (PStr ''fn9''))] GetLogGroupNames
     = Inr (PList [PStr ''/aws/lambda/fn1'', PStr ''/aws/lambda/myfn1'',
                   PStr ''/aws/lambda/fn2'', PStr ''/custom/fn1''])"
proof -
  have t: "retry_transparent (retry fake_env)"
    by (simp add: fake_env_def retry_transparent_retry_once)
  have c: "map_of [(''resource_name'', PStr ''fn9'')] ''resource_name'' = Some (PStr ''fn9'')"
    by simp
  have p: "provider fake_env [] (DeleteLambda (PStr ''fn9''))
             = Inl (ClientError ''ResourceNotFoundException'' ''Function not found'')"
    by (simp add: fake_env_def)
  show ?thesis
    using remove_lambda_not_found_skips_cleanup [OF t c p, of PNone]
    by (simp add: fake_env_def)
qed




text \<open>
  C1, idempotence. For the function kind the second reconciliation returns the record of
  the first under the same identifier and issues no create call
  (\<open>function_reconcile_twice\<close>, and \<open>fn1_second_run\<close> after \<open>fn1_first_run\<close>). For the
  stream kind it returns nothing. The reply of \<open>get_stream\<close> holds the identifier under
  \<open>StreamDescription\<close>, where \<open>_create_kinesis_stream_trigger_from_meta\<close> reads it and
  where \<open>_create_kinesis_stream_from_meta\<close> itself reads the state; lines 59 and 67 look
  for \<open>StreamARN\<close> at the top of the reply. The stream \<open>s1\<close> is reconciled twice in
  sequence on the example provider: the first run creates it and then ends in the
  \<open>KeyError\<close> of line 67; the second run finds it active, issues no create call, and
  ends in the \<open>KeyError\<close> of line 59 instead of returning its description.
\<close>

theorem stream_reconcile_twice_key_error:
  "create_kinesis_stream_from_meta fake_env ''s1'' [(''shard_count'', PInt 2)] []
     = (Inl (KeyError (PStr ''StreamARN'')),
        [Call (GetStream (PStr ''s1'')),
         Call (CreateStream (PStr ''s1'') (PInt 2)),
         Log INFO ''Created kinesis stream %s.'' [PStr ''s1''],
         Call (GetStream (PStr ''s1''))])
   \<and> provider fake_env
         [Call (GetStream (PStr ''s1'')),
          Call (CreateStream (PStr ''s1'') (PInt 2)),
          Log INFO ''Created kinesis stream %s.'' [PStr ''s1''],
          Call (GetStream (PStr ''s1''))]
         (GetStream (PStr ''s1''))
       = Inr (PDict [(''StreamDescription'',
                      PDict [(''StreamARN'',
                              PStr ''arn:aws:kinesis:eu-west-1:123456789012:stream/s1''),
                             (''StreamStatus'', PStr ''ACTIVE'')])])
   \<and> create_kinesis_stream_from_meta fake_env ''s1'' [(''shard_count'', PInt 2)]
         [Call (GetStream (PStr ''s1'')),
          Call (CreateStream (PStr ''s1'') (PInt 2)),
          Log INFO ''Created kinesis stream %s.'' [PStr ''s1''],
          Call (GetStream (PStr ''s1''))]
     = (Inl (KeyError (PStr ''StreamARN'')),
        [Call (GetStream (PStr ''s1'')),
         Call (CreateStream (PStr ''s1'') (PInt 2)),
         Log INFO ''Created kinesis stream %s.'' [PStr ''s1''],
         Call (GetStream (PStr ''s1'')),
         Call (GetStream (PStr ''s1'')),
         Log WARN ''%s kinesis stream exists'' [PStr ''s1'']])"
  by (simp add: create_kinesis_stream_from_meta_def create_stream_and_describe_def fake_env_def
      fake_stream_def bind_e_def dict_index_def lift_m_def stream_description_def)





text \<open>
  C7, log groups on function removal. The claim as worded (every log group whose name ends
  in the function's name is deleted) fails: the remover compares the function's name with
  the part of the group's name after its last \<open>/\<close>. On the example provider the group
  \<open>/aws/lambda/myfn1\<close> ends in \<open>fn1\<close> and survives the removal of \<open>fn1\<close>.
\<close>

theorem log_group_suffix_counterexample:
  "suffix ''fn1'' ''/aws/lambda/myfn1''
   \<and> provider fake_env
         [Call (DeleteLambda (PStr ''fn1'')), Call (RemoveTrigger (PStr ''fn1''))]
         GetLogGroupNames
       = Inr (PList [PStr ''/aws/lambda/fn1'', PStr ''/aws/lambda/myfn1'',
                     PStr ''/aws/lambda/fn2'', PStr ''/custom/fn1''])
   \<and> fst (remove_lambda fake_env PNone [(''resource_name'', PStr ''fn1'')] []) = Inr ()
   \<and> Call (DeleteLogGroupName (PStr ''/aws/lambda/myfn1''))
       \<notin> set (snd (remove_lambda fake_env PNone [(''resource_name'', PStr ''fn1'')] []))"
  by (simp add: remove_fn1_run suffix_to_prefix) (simp add: fake_env_def)

text \<open>
  C7 as amended: when the function is deleted, its trigger bindings are removed and the
  log groups are listed without an error, and no deletion of a log group fails, the
  remover deletes, after the trigger bindings and in the order of the listing, every log
  group whose name's last \<open>/\<close>-separated segment is equal to the function's name, and
  no other log group (\<open>retry\<close> returning what returns). A name with that last segment
  ends in the function's name, so no group whose name does not end in it is deleted.
\<close>

theorem log_group_cleanup:
  assumes "retry_transparent (retry env)"
    and "map_of config ''resource_name'' = Some n"
    and "provider env w (DeleteLambda n) = Inr r1"
    and "provider env (w @ [Call (DeleteLambda n)]) (RemoveTrigger n) = Inr r2"
    and "provider env (w @ [Call (DeleteLambda n), Call (RemoveTrigger n)]) GetLogGroupNames
           = Inr (PList (map PStr names))"
    and "\<forall>tr. \<forall>g \<in> set names. \<exists>v. provider env tr (DeleteLogGroupName (PStr g)) = Inr v"
  shows "remove_lambda env arn config w =
           (Inr (),
            w @ [Call (DeleteLambda n), Call (RemoveTrigger n), Call GetLogGroupNames]
              @ map (\<lambda>g. Call (DeleteLogGroupName (PStr g)))
                  (filter (\<lambda>g. n = PStr (last (split_on CHR ''/'' g))) names)
              @ [Log INFO ''Lambda %s was removed.'' [n]])"
proof -
  have "remove_lambda_try env n w =
          (Inr (),
           w @ [Call (DeleteLambda n), Call (RemoveTrigger n), Call GetLogGroupNames]
             @ map (\<lambda>g. Call (DeleteLogGroupName (PStr g)))
                 (filter (\<lambda>g. n = PStr (last (split_on CHR ''/'' g))) names)
             @ [Log INFO ''Lambda %s was removed.'' [n]])"
    unfolding remove_lambda_try_def
    by (simp add: assms(3,4,5) bind_m_def [of "delete_log_groups env n (map PStr names)"]
        delete_log_groups_run [OF assms(6)] log_msg_def)
  then have "remove_lambda_body env arn config w =
          (Inr (),
           w @ [Call (DeleteLambda n), Call (RemoveTrigger n), Call GetLogGroupNames]
             @ map (\<lambda>g. Call (DeleteLogGroupName (PStr g)))
                 (filter (\<lambda>g. n = PStr (last (split_on CHR ''/'' g))) names)
             @ [Log INFO ''Lambda %s was removed.'' [n]])"
    unfolding remove_lambda_body_def
    by (simp add: assms(2) dict_index_def try_except_not_found_def)
  then show ?thesis
    unfolding remove_lambda_def by (rule retry_transparentD [OF assms(1)])
qed

theorem log_group_cleanup_witness:
  "remove_lambda fake_env PNone [(''resource_name'', PStr ''fn1'')] [] =
     (Inr (),
      [Call (DeleteLambda (PStr ''fn1'')),
       Call (RemoveTrigger (PStr ''fn1'')),
       Call GetLogGroupNames,
       Call (DeleteLogGroupName (PStr ''/aws/lambda/fn1'')),
       Call (DeleteLogGroupName (PStr ''/custom/fn1'')),
       Log INFO ''Lambda %s was removed.'' [PStr ''fn1'']])"
proof -
  have t: "retry_transparent (retry fake_env)"
    by (simp add: fake_env_def retry_transparent_retry_once)
  have c: "map_of [(''resource_name'', PStr ''fn1'')] ''resource_name'' = Some (PStr ''fn1'')"
    by simp
  have d: "provider fake_env [] (DeleteLambda (PStr ''fn1'')) = Inr PNone"
    by (simp add: fake_env_def)
  have r: "provider fake_env ([] @ [Call (DeleteLambda (PStr ''fn1''))])
             (RemoveTrigger (PStr ''fn1'')) = Inr PNone"
    by (simp add: fake_env_def)
  have g: "provider fake_env
             ([] @ [Call (DeleteLambda (PStr ''fn1'')), Call (RemoveTrigger (PStr ''fn1''))])
             GetLogGroupNames
           = Inr (PList (map PStr [''/aws/lambda/fn1'', ''/aws/lambda/myfn1'',
                                   ''/aws/lambda/fn2'', ''/custom/fn1'']))"
    by (simp add: fake_env_def)
  have a: "\<forall>tr. \<forall>g \<in> set [''/aws/lambda/fn1'', ''/aws/lambda/myfn1'',
                               ''/aws/lambda/fn2'', ''/custom/fn1''].
             \<exists>v. provider fake_env tr (DeleteLogGroupName (PStr g)) = Inr v"
    by (simp add: fake_env_def)
  show ?thesis
    using log_group_cleanup [OF t c d r g a, of PNone]
    by simp
qed

text \<open>
  C8, the dead-letter target. The claim as worded (the interpolation of the configured
  type) fails: the type is lower-cased before it is interpolated. With the type \<open>SQS\<close>
  the identifier that is computed starts with \<open>arn:aws:sqs:\<close>.
\<close>

theorem dl_target_arn_as_configured_counterexample:
  "compute_dl_target_arn fake_env
       [(''dl_resource_type'', PStr ''SQS''), (''dl_resource_name'', PStr ''dlq'')]
     = Inr (PStr ''arn:aws:sqs:eu-west-1:123456789012:dlq'')
   \<and> dl_target_arn_as_configured fake_env
       [(''dl_resource_type'', PStr ''SQS''), (''dl_resource_name'', PStr ''dlq'')]
     = PStr ''arn:aws:SQS:eu-west-1:123456789012:dlq''
   \<and> compute_dl_target_arn fake_env
       [(''dl_resource_type'', PStr ''SQS''), (''dl_resource_name'', PStr ''dlq'')]
     \<noteq> Inr (dl_target_arn_as_configured fake_env
              [(''dl_resource_type'', PStr ''SQS''), (''dl_resource_name'', PStr ''dlq'')])"
  by (simp add: compute_dl_target_arn_def dl_target_arn_as_configured_def fake_env_def
      dict_get_def bind_e_def py_str_def ascii_lower_def)

text \<open>
  C8 as amended: the dead-letter target passed to the create call is
  \<open>arn:aws:{type}:{region}:{account}:{name}\<close>, with \<open>{type}\<close> the configured type in lower
  case, exactly when \<open>dl_resource_type\<close> is a non-empty string and \<open>dl_resource_name\<close> is
  configured with a truthy value; it is \<open>None\<close> when the type is absent or falsy, or the
  name is absent or falsy; and a truthy type that is not a string ends the run with the
  \<open>AttributeError\<close> of \<open>lower\<close>. The first part of the theorem is the value that is
  computed. The second is that this value is what the create call is given: in a run that
  comes to the create call, the call that is issued carries the keyword arguments with
  the computed value under \<open>dl_target_arn\<close>, and the run goes on from there.
\<close>

theorem dl_target_arn_lower_cased:
  "compute_dl_target_arn env meta =
     (case dict_get meta ''dl_resource_type'' of
        PStr t \<Rightarrow>
          Inr (if t \<noteq> [] \<and> truthy (dict_get meta ''dl_resource_name'')
               then PStr (''arn:aws:'' @ map ascii_lower t @ '':'' @ region env @ '':''
                          @ account_id env @ '':''
                          @ py_str env (dict_get meta ''dl_resource_name''))
               else PNone)
      | v \<Rightarrow> if truthy v then Inl AttributeError else Inr PNone)
   \<and> (reaches_create env name meta w key role_name role_arn
        \<and> compute_dl_target_arn env meta = Inr dl
        \<and> create_lambda_kwargs env name meta role_arn key dl = Inr kwargs
      \<longrightarrow> map_of kwargs ''dl_target_arn'' = Some dl
          \<and> create_lambda_from_meta env name meta w =
              (case provider env (before_create env name w key role_name)
                      (CreateLambda kwargs) of
                 Inl e \<Rightarrow>
                   (Inl e, before_create env name w key role_name @ [Call (CreateLambda kwargs)])
               | Inr created \<Rightarrow>
                   finish_new_lambda env name meta role_name
                     (before_create env name w key role_name @ [Call (CreateLambda kwargs)])))"
proof (intro conjI impI)
  show "compute_dl_target_arn env meta =
     (case dict_get meta ''dl_resource_type'' of
        PStr t \<Rightarrow>
          Inr (if t \<noteq> [] \<and> truthy (dict_get meta ''dl_resource_name'')
               then PStr (''arn:aws:'' @ map ascii_lower t @ '':'' @ region env @ '':''
                          @ account_id env @ '':''
                          @ py_str env (dict_get meta ''dl_resource_name''))
               else PNone)
      | v \<Rightarrow> if truthy v then Inl AttributeError else Inr PNone)"
    unfolding compute_dl_target_arn_def
    by (cases "dict_get meta ''dl_resource_type''")
       (simp_all add: bind_e_def Let_def py_str_def)
next
  assume "reaches_create env name meta w key role_name role_arn
        \<and> compute_dl_target_arn env meta = Inr dl
        \<and> create_lambda_kwargs env name meta role_arn key dl = Inr kwargs"
  then show "map_of kwargs ''dl_target_arn'' = Some dl"
    unfolding create_lambda_kwargs_def bind_e_def
    by (auto split: sum.splits)
next
  assume a: "reaches_create env name meta w key role_name role_arn
        \<and> compute_dl_target_arn env meta = Inr dl
        \<and> create_lambda_kwargs env name meta role_arn key dl = Inr kwargs"
  then have b: "bind_e (compute_dl_target_arn env meta)
               (create_lambda_kwargs env name meta role_arn key) = Inr kwargs"
    by (simp add: bind_e_def)
  from a have r: "reaches_create env name meta w key role_name role_arn"
    by (rule conjunct1)
  show "create_lambda_from_meta env name meta w =
              (case provider env (before_create env name w key role_name)
                      (CreateLambda kwargs) of
                 Inl e \<Rightarrow>
                   (Inl e, before_create env name w key role_name @ [Call (CreateLambda kwargs)])
               | Inr created \<Rightarrow>
                   finish_new_lambda env name meta role_name
                     (before_create env name w key role_name @ [Call (CreateLambda kwargs)]))"
    unfolding reaches_create_run [OF r] b by simp
qed

theorem dl_target_arn_lower_cased_witness:
  "map_of fn1_dl_kwargs ''dl_target_arn''
     = Some (PStr ''arn:aws:sqs:eu-west-1:123456789012:dlq'')
   \<and> create_lambda_from_meta fake_env ''fn1'' fn1_dl_meta [] =
       (Inr [(PStr ''arn:aws:lambda:eu-west-1:123456789012:function:fn1'',
              build_description_obj
                (PDict [(''Configuration'', PDict [(''FunctionName'', PStr ''fn1'')])])
                ''fn1'' fn1_dl_meta)],
        [Call (IsFileExists (PStr ''deploy-bucket'') (PStr ''bundle/fn1.zip'')),
         Call (GetFunction (PStr ''fn1'')),
         Call (CheckIfRoleExists (PStr ''r1'')),
         Call (CreateLambda fn1_dl_kwargs),
         Sleep 10,
         Call (GetFunction (PStr ''fn1'')),
         Log INFO ''Created lambda %s.'' [PStr ''fn1'']])"
proof -
  have r: "reaches_create fake_env ''fn1'' fn1_dl_meta [] (PStr ''bundle/fn1.zip'')
             (PStr ''r1'') (PStr ''arn:aws:iam::123456789012:role/r1'')"
    by (simp add: reaches_create_def reply_truthy_def reply_falsy_def req_params_def
        fn1_dl_meta_def fn1_meta_def fake_env_def)
  have c: "compute_dl_target_arn fake_env fn1_dl_meta
             = Inr (PStr ''arn:aws:sqs:eu-west-1:123456789012:dlq'')"
    by (simp add: compute_dl_target_arn_def fn1_dl_meta_def fn1_meta_def fake_env_def
        dict_get_def bind_e_def py_str_def ascii_lower_def)
  have k: "create_lambda_kwargs fake_env ''fn1'' fn1_dl_meta
             (PStr ''arn:aws:iam::123456789012:role/r1'') (PStr ''bundle/fn1.zip'')
             (PStr ''arn:aws:sqs:eu-west-1:123456789012:dlq'')
           = Inr fn1_dl_kwargs"
    by (simp add: create_lambda_kwargs_def bind_e_def dict_index_def dict_get_def
        fn1_dl_meta_def fn1_meta_def fn1_dl_kwargs_def fn1_kwargs_def fake_env_def
        ascii_lower_def)
  note th = dl_target_arn_lower_cased
    [THEN conjunct2, rule_format, OF conjI [OF r conjI [OF c k]]]
  have run: "create_lambda_from_meta fake_env ''fn1'' fn1_dl_meta [] =
      finish_new_lambda fake_env ''fn1'' fn1_dl_meta (PStr ''r1'')
        [Call (IsFileExists (PStr ''deploy-bucket'') (PStr ''bundle/fn1.zip'')),
         Call (GetFunction (PStr ''fn1'')),
         Call (CheckIfRoleExists (PStr ''r1'')),
         Call (CreateLambda fn1_dl_kwargs)]"
    using th [THEN conjunct2] by (simp add: before_create_def fake_env_def)
  have fin: "finish_new_lambda fake_env ''fn1'' fn1_dl_meta (PStr ''r1'')
        [Call (IsFileExists (PStr ''deploy-bucket'') (PStr ''bundle/fn1.zip'')),
         Call (GetFunction (PStr ''fn1'')),
         Call (CheckIfRoleExists (PStr ''r1'')),
         Call (CreateLambda fn1_dl_kwargs)] =
       (Inr [(PStr ''arn:aws:lambda:eu-west-1:123456789012:function:fn1'',
              build_description_obj
                (PDict [(''Configuration'', PDict [(''FunctionName'', PStr ''fn1'')])])
                ''fn1'' fn1_dl_meta)],
        [Call (IsFileExists (PStr ''deploy-bucket'') (PStr ''bundle/fn1.zip'')),
         Call (GetFunction (PStr ''fn1'')),
         Call (CheckIfRoleExists (PStr ''r1'')),
         Call (CreateLambda fn1_dl_kwargs),
         Sleep 10,
         Call (GetFunction (PStr ''fn1'')),
         Log INFO ''Created lambda %s.'' [PStr ''fn1'']])"
    by (simp add: run_defs fake_env_def fn1_dl_meta_def fn1_meta_def fn1_dl_kwargs_def
        fn1_kwargs_def fake_function_def AList.delete_eq)
  from th [THEN conjunct1] run fin show ?thesis
    by simp
qed

end
